theory Spec2Isabelle
  imports Complex_Main
begin

section \<open>Values of the Python program\<close>

text \<open>
  The exceptions the modelled code can raise. \<open>Collaborator\<close> carries an error raised
  by a collaborator that is not part of the sources (the game, the estimator, the search).
\<close>

datatype error =
    IndexError
  | KeyError
  | TypeError
  | ZeroDivisionError
  | AttributeError
  | FileNotFoundError
  | Collaborator string

text \<open>
  A float64 entry of a state array: a finite value, or one of the three non-finite values.
\<close>

datatype fl = Fin real | NaN | PosInf | NegInf

type_synonym game_state = "fl list"

text \<open>
  A Python dict is an association list with distinct keys, in insertion order;
  \<open>d[k]\<close> raises KeyError on a missing key.
\<close>

type_synonym ('k, 'v) dict = "('k \<times> 'v) list"

definition dict_get :: "('k, 'v) dict \<Rightarrow> 'k \<Rightarrow> error + 'v" where
  "dict_get d k = (case map_of d k of None \<Rightarrow> Inl KeyError | Some v \<Rightarrow> Inr v)"

text \<open>
  The game collaborator, as far as \<open>alphago.py\<close> uses it. \<open>utility\<close> returns a dict from
  player to payoff and may raise (it does on a non-terminal state).
\<close>

record 'a game =
  initial_state :: game_state
  which_player :: "game_state \<Rightarrow> int"
  utility :: "game_state \<Rightarrow> error + (int \<rightharpoonup> real)"
  action_indices :: "('a, int) dict"

section \<open>numpy operations used by the example builder\<close>

text \<open>
  \<open>np.nan_to_num\<close> with its default arguments: NaN becomes 0, positive infinity the
  largest finite float64, negative infinity the most negative one. It returns a new
  array and leaves its argument alone.
\<close>

definition float64_max :: real where
  "float64_max = (2 - 1 / 2 ^ 52) * 2 ^ 1023"

fun nan_to_num1 :: "fl \<Rightarrow> fl" where
  "nan_to_num1 NaN = Fin 0"
| "nan_to_num1 PosInf = Fin float64_max"
| "nan_to_num1 NegInf = Fin (- float64_max)"
| "nan_to_num1 (Fin x) = Fin x"

definition nan_to_num :: "game_state \<Rightarrow> game_state" where
  "nan_to_num s = map nan_to_num1 s"

fun is_finite :: "fl \<Rightarrow> bool" where
  "is_finite (Fin x) = True"
| "is_finite NaN = False"
| "is_finite PosInf = False"
| "is_finite NegInf = False"

text \<open>
  The position an integer index denotes in an array of length \<open>n\<close>: a negative index
  counts from the end, anything outside \<open>[-n, n)\<close> raises IndexError.
\<close>

definition np_position :: "nat \<Rightarrow> int \<Rightarrow> error + nat" where
  "np_position n i =
     (let j = (if i < 0 then i + int n else i)
      in if 0 \<le> j \<and> j < int n then Inr (nat j) else Inl IndexError)"

definition np_setitem :: "real list \<Rightarrow> int \<Rightarrow> real \<Rightarrow> error + real list" where
  "np_setitem v i x =
     (case np_position (length v) i of
        Inl e \<Rightarrow> Inl e
      | Inr j \<Rightarrow> Inr (v[j := x]))"

section \<open>The example builder: process_self_play_data\<close>

text \<open>
  The inner loop \<open>for a, prob in probs.items(): probs_vector[action_indices[a]] = prob\<close>.
\<close>

fun fill_probs :: "('a, int) dict \<Rightarrow> ('a, real) dict \<Rightarrow> real list \<Rightarrow> error + real list" where
  "fill_probs ai [] v = Inr v"
| "fill_probs ai ((a, prob) # rest) v =
     (case dict_get ai a of
        Inl e \<Rightarrow> Inl e
      | Inr i \<Rightarrow>
          (case np_setitem v i prob of
             Inl e \<Rightarrow> Inl e
           | Inr v' \<Rightarrow> fill_probs ai rest v'))"

text \<open>\<open>probs_vector = np.zeros(len(action_indices))\<close> followed by the inner loop.\<close>

definition probs_vector :: "('a, int) dict \<Rightarrow> ('a, real) dict \<Rightarrow> error + real list" where
  "probs_vector ai probs = fill_probs ai probs (replicate (length ai) 0)"

text \<open>A training tuple \<open>(non_nan_state, action, probs_vector, z)\<close>.\<close>

type_synonym 'a example = "game_state \<times> 'a \<times> real list \<times> real"

text \<open>The body of the loop over \<open>zip(states, actions, action_probs)\<close>.\<close>

definition build_example ::
  "'a game \<Rightarrow> (int \<rightharpoonup> real) \<Rightarrow> ('a, int) dict \<Rightarrow>
   game_state \<times> 'a \<times> ('a, real) dict \<Rightarrow> error + 'a example" where
  "build_example g outcome ai t =
     (case t of (s, action, probs) \<Rightarrow>
        (case outcome (which_player g s) of
           None \<Rightarrow> Inl KeyError
         | Some z \<Rightarrow>
             (case probs_vector ai probs of
                Inl e \<Rightarrow> Inl e
              | Inr pv \<Rightarrow> Inr (nan_to_num s, action, pv, z))))"

fun build_examples ::
  "'a game \<Rightarrow> (int \<rightharpoonup> real) \<Rightarrow> ('a, int) dict \<Rightarrow>
   (game_state \<times> 'a \<times> ('a, real) dict) list \<Rightarrow> error + 'a example list" where
  "build_examples g outcome ai [] = Inr []"
| "build_examples g outcome ai (t # ts) =
     (case build_example g outcome ai t of
        Inl e \<Rightarrow> Inl e
      | Inr ex \<Rightarrow>
          (case build_examples g outcome ai ts of
             Inl e \<Rightarrow> Inl e
           | Inr exs \<Rightarrow> Inr (ex # exs)))"

text \<open>
  \<open>process_self_play_data(states, actions, action_probs, game, action_indices)\<close>.
  The function pops the caller's list \<open>states\<close>, so the model returns the final content
  of that list beside the result: the list is unchanged when \<open>pop\<close> raises on the empty
  list, and has lost its last element from then on, also when a later step raises.
\<close>

definition process_self_play_data ::
  "game_state list \<Rightarrow> 'a list \<Rightarrow> ('a, real) dict list \<Rightarrow> 'a game \<Rightarrow> ('a, int) dict \<Rightarrow>
   (error + 'a example list) \<times> game_state list" where
  "process_self_play_data states actions action_probs g ai =
     (if states = [] then (Inl IndexError, states)
      else
        let last_state = last states;
            popped = butlast states
        in (case utility g last_state of
              Inl e \<Rightarrow> (Inl e, popped)
            | Inr outcome \<Rightarrow>
                (build_examples g outcome ai (zip popped (zip actions action_probs)), popped)))"

text \<open>
  What a completed trajectory needs for the builder to return: the game gives a utility
  for the final state that covers every player to move, and every action of a
  probability dict has an index inside the vector.
\<close>

definition indexable :: "('a, int) dict \<Rightarrow> ('a, real) dict \<Rightarrow> bool" where
  "indexable ai probs =
     list_all (\<lambda>(a, p). case dict_get ai a of
                            Inl e \<Rightarrow> False
                          | Inr i \<Rightarrow> - int (length ai) \<le> i \<and> i < int (length ai)) probs"

definition well_formed ::
  "'a game \<Rightarrow> ('a, int) dict \<Rightarrow> game_state list \<Rightarrow> ('a, real) dict list \<Rightarrow> bool" where
  "well_formed g ai states action_probs =
     (case utility g (last states) of
        Inl e \<Rightarrow> False
      | Inr outcome \<Rightarrow>
          list_all (\<lambda>s. outcome (which_player g s) \<noteq> None) (butlast states) \<and>
          list_all (indexable ai) action_probs)"

text \<open>
  The slot of the dense vector that the builder writes for an action, and the slots of a
  vector that hold a nonzero entry.
\<close>

definition action_slot :: "('a, int) dict \<Rightarrow> 'a \<Rightarrow> error + nat" where
  "action_slot ai a =
     (case dict_get ai a of Inl e \<Rightarrow> Inl e | Inr i \<Rightarrow> np_position (length ai) i)"

definition nonzero_support :: "real list \<Rightarrow> nat set" where
  "nonzero_support v = {j. j < length v \<and> v ! j \<noteq> 0}"

section \<open>Self-play\<close>

text \<open>
  Modelled from the spec: the search tree's node (\<open>MCTSNode\<close> of \<open>mcts_tree.py\<close>, which
  is not in the sources). A node holds its state, the player to move, the terminal flag
  and a dict from action to edge; an edge owns the child node and the statistics
  \<open>N\<close>, \<open>W\<close> and \<open>P\<close>. \<open>new_node\<close> is the constructor call \<open>MCTSNode(state, player)\<close>:
  a node with no children, not marked terminal.
\<close>

datatype 'n edge = Edge (child: 'n) (visit_count: nat) (total_value: real) (prior: real)

datatype 'a MCTSNode =
  MCTSNode (game_state: game_state) (player: int) (is_terminal: bool)
           (children: "('a \<times> 'a MCTSNode edge) list")

definition new_node :: "game_state \<Rightarrow> int \<Rightarrow> 'a MCTSNode" where
  "new_node s p = MCTSNode s p False []"

text \<open>
  The search \<open>mcts(node, game, estimator, mcts_iters, c_puct, tau=tau)\<close> is not in the
  sources. It is a parameter: from the root and \<open>tau\<close> it returns the action
  probabilities and the root as the search left it (the Python mutates the node in
  place), or raises. \<open>sample_distribution\<close> is random: the parameter \<open>sample\<close> gives the
  action drawn at each ply.
\<close>

type_synonym 'a search = "'a MCTSNode \<Rightarrow> real \<Rightarrow> error + (('a, real) dict \<times> 'a MCTSNode)"

text \<open>
  What the loop of \<open>self_play\<close> has built when it ends: the three lists, and for each
  ply the root handed to the search with the root as the search left it.
\<close>

record 'a play_log =
  game_state_list :: "game_state list"
  action_list :: "'a list"
  action_probs_list :: "('a, real) dict list"
  searched :: "('a MCTSNode \<times> 'a MCTSNode) list"

text \<open>
  The loop \<open>while not node.is_terminal\<close>. Nothing bounds it, so it runs on fuel: \<open>None\<close>
  is a loop that has not ended within the fuel.
\<close>

fun self_play_loop ::
  "nat \<Rightarrow> 'a search \<Rightarrow> (nat \<Rightarrow> ('a, real) dict \<Rightarrow> 'a) \<Rightarrow> 'a MCTSNode \<Rightarrow> nat \<Rightarrow>
   'a play_log \<Rightarrow> (error + 'a play_log) option" where
  "self_play_loop 0 mcts sample node move_count acc = None"
| "self_play_loop (Suc fuel) mcts sample node move_count acc =
     (if is_terminal node then Some (Inr acc)
      else
        (case mcts node (1 / (real move_count + 1)) of
           Inl e \<Rightarrow> Some (Inl e)
         | Inr (action_probs, node') \<Rightarrow>
             let action = sample move_count action_probs
             in (case dict_get (children node') action of
                   Inl e \<Rightarrow> Some (Inl e)
                 | Inr e \<Rightarrow>
                     self_play_loop fuel mcts sample (child e) (move_count + 1)
                       \<lparr>game_state_list = game_state_list acc @ [game_state (child e)],
                        action_list = action_list acc @ [action],
                        action_probs_list = action_probs_list acc @ [action_probs],
                        searched = searched acc @ [(node, node')]\<rparr>)))"

definition self_play_trace ::
  "nat \<Rightarrow> 'a game \<Rightarrow> 'a search \<Rightarrow> (nat \<Rightarrow> ('a, real) dict \<Rightarrow> 'a) \<Rightarrow>
   (error + 'a play_log) option" where
  "self_play_trace fuel g mcts sample =
     (let node = new_node (initial_state g) (which_player g (initial_state g))
      in self_play_loop fuel mcts sample node 0
           \<lparr>game_state_list = [game_state node], action_list = [],
            action_probs_list = [], searched = []\<rparr>)"

definition self_play ::
  "nat \<Rightarrow> 'a game \<Rightarrow> 'a search \<Rightarrow> (nat \<Rightarrow> ('a, real) dict \<Rightarrow> 'a) \<Rightarrow>
   (error + 'a example list) option" where
  "self_play fuel g mcts sample =
     (case self_play_trace fuel g mcts sample of
        None \<Rightarrow> None
      | Some (Inl e) \<Rightarrow> Some (Inl e)
      | Some (Inr acc) \<Rightarrow>
          Some (fst (process_self_play_data (game_state_list acc) (action_list acc)
                       (action_probs_list acc) g (action_indices g))))"

section \<open>Generating and flattening self-play data\<close>

text \<open>Sequencing of steps that may raise: the first error ends the computation.\<close>

definition bind_e :: "error + 'a \<Rightarrow> ('a \<Rightarrow> error + 'b) \<Rightarrow> error + 'b" where
  "bind_e m f = (case m of Inl e \<Rightarrow> Inl e | Inr x \<Rightarrow> f x)"

text \<open>\<open>d[k] = v\<close> on an ordered dict: an existing key keeps its place, a new key goes last.\<close>

fun dict_set :: "'k \<Rightarrow> 'v \<Rightarrow> ('k, 'v) dict \<Rightarrow> ('k, 'v) dict" where
  "dict_set k v [] = [(k, v)]"
| "dict_set k v ((k', v') # d) = (if k = k' then (k, v) # d else (k', v') # dict_set k v d)"

text \<open>
  The loop \<open>for _ in range(num_iters): data[index] = self_play(...)\<close>. \<open>self_play\<close> is
  random, so its successive calls are the parameter \<open>play\<close>: \<open>play i\<close> is what the call of
  iteration \<open>i\<close> returns or raises. The loop variable is unused and \<open>index\<close> is not
  assigned in the loop.
\<close>

fun store_games ::
  "(nat \<Rightarrow> error + 't) \<Rightarrow> nat list \<Rightarrow> int \<Rightarrow> (int, 't) dict \<Rightarrow> error + (int, 't) dict" where
  "store_games play [] index data = Inr data"
| "store_games play (i # rest) index data =
     bind_e (play i) (\<lambda>t. store_games play rest index (dict_set index t data))"

text \<open>
  \<open>generate_self_play_data\<close>. \<open>files\<close> is the set of paths that can be opened for
  reading. With a save file, \<open>open\<close> raises FileNotFoundError on a missing file;
  otherwise \<open>json.load(save_file_path)\<close> is handed the path, a \<open>str\<close>, and raises
  AttributeError when it calls \<open>read\<close> on it, so the lines after it are never reached.
\<close>

definition generate_self_play_data ::
  "string set \<Rightarrow> (nat \<Rightarrow> error + 't) \<Rightarrow> int \<Rightarrow> string option \<Rightarrow> error + (int, 't) dict" where
  "generate_self_play_data files play num_iters save_file_path =
     (case save_file_path of
        Some path \<Rightarrow> (if path \<in> files then Inl AttributeError else Inl FileNotFoundError)
      | None \<Rightarrow> store_games play [0..<nat num_iters] 0 [])"

text \<open>A slice \<open>xs[i:]\<close>: a negative start counts from the end and is clipped at 0.\<close>

definition slice_from :: "int \<Rightarrow> 'x list \<Rightarrow> 'x list" where
  "slice_from i xs =
     (if i < 0 then drop (nat (int (length xs) + i)) xs else drop (nat i) xs)"

definition process_training_data ::
  "(int, 'a example list) dict \<Rightarrow> int option \<Rightarrow> (game_state \<times> real list \<times> real) list" where
  "process_training_data self_play_data replay_length =
     (let training_data =
            concat (map (\<lambda>(index, game_log).
                           map (\<lambda>(s, action, pv, z). (s, pv, z)) game_log) self_play_data)
      in case replay_length of
           None \<Rightarrow> training_data
         | Some r \<Rightarrow> slice_from (- r) training_data)"

section \<open>Players\<close>

text \<open>
  A Python call binds positional arguments to the parameters in order and keyword
  arguments by name. It raises TypeError when there are too many positional arguments,
  when a keyword names no parameter or one already bound by position, and when a
  parameter without default is left unbound. The parameter lists here have no defaults.
\<close>

definition bind_arguments ::
  "string list \<Rightarrow> 'v list \<Rightarrow> (string, 'v) dict \<Rightarrow> error + (string, 'v) dict" where
  "bind_arguments params args kwargs =
     (if length params < length args then Inl TypeError
      else if list_ex (\<lambda>k. k \<notin> set params) (map fst kwargs) then Inl TypeError
      else if list_ex (\<lambda>k. k \<in> set (take (length args) params)) (map fst kwargs)
        then Inl TypeError
      else if list_ex (\<lambda>p. p \<notin> set (map fst kwargs)) (drop (length args) params)
        then Inl TypeError
      else Inr (zip params args @ kwargs))"

text \<open>
  The values that \<open>alphago.py\<close> passes to the player classes. An instance is the dict of
  its attributes: both constructors of \<open>player.py\<close> store each parameter under its name.
\<close>

datatype ('a, 'f) arg = GameArg "'a game" | EstimatorArg 'f | IntArg int | FloatArg real

type_synonym ('a, 'f) instance_dict = "(string, ('a, 'f) arg) dict"

text \<open>\<open>AbstractPlayer.__init__(self, player_no, game)\<close>, inherited by \<open>RandomPlayer\<close>.\<close>

definition RandomPlayer ::
  "('a, 'f) arg list \<Rightarrow> (string, ('a, 'f) arg) dict \<Rightarrow> error + ('a, 'f) instance_dict" where
  "RandomPlayer args kwargs = bind_arguments [''player_no'', ''game''] args kwargs"

text \<open>\<open>MCTSPlayer.__init__(self, player_no, game, estimator, mcts_iters, c_puct)\<close>.\<close>

definition MCTSPlayer ::
  "('a, 'f) arg list \<Rightarrow> (string, ('a, 'f) arg) dict \<Rightarrow> error + ('a, 'f) instance_dict" where
  "MCTSPlayer args kwargs =
     bind_arguments [''player_no'', ''game'', ''estimator'', ''mcts_iters'', ''c_puct'']
       args kwargs"

section \<open>The evaluation harness\<close>

text \<open>
  The two player classes are passed to the harness as \<open>mcts_player\<close> and
  \<open>random_player\<close>, so that what is proved of the harness and of the training loop holds
  for every class called this way; \<open>MCTSPlayer\<close> and \<open>RandomPlayer\<close> above are the
  classes \<open>alphago.py\<close> imports. \<open>evaluate\<close> (of \<open>evaluator.py\<close>, not in the sources) is
  a parameter: from the players of seats 1 and 2 and the number of games it returns
  the dict of player 1's results, keyed 1 (wins), -1 (losses) and 0 (draws).
\<close>

record ('a, 'f, 'p) harness =
  mcts_player :: "('a, 'f) arg list \<Rightarrow> (string, ('a, 'f) arg) dict \<Rightarrow> error + 'p"
  random_player :: "('a, 'f) arg list \<Rightarrow> (string, ('a, 'f) arg) dict \<Rightarrow> error + 'p"
  evaluate :: "'a game \<Rightarrow> 'p \<Rightarrow> 'p \<Rightarrow> int \<Rightarrow> error + (int, int) dict"

definition evaluate_estimators_in_both_positions ::
  "('a, 'f, 'p) harness \<Rightarrow> 'a game \<Rightarrow> 'f \<Rightarrow> 'f \<Rightarrow> int \<Rightarrow> real \<Rightarrow> int \<Rightarrow> real \<Rightarrow>
   error + int \<times> int \<times> int" where
  "evaluate_estimators_in_both_positions h g estimator1 estimator2 iters c num_evaluate_games tau =
     bind_e (mcts_player h [GameArg g, EstimatorArg estimator1, IntArg iters, FloatArg c]
               [(''tau'', FloatArg tau)]) (\<lambda>p1.
     bind_e (mcts_player h [GameArg g, EstimatorArg estimator2, IntArg iters, FloatArg c]
               [(''tau'', FloatArg tau)]) (\<lambda>p2.
     bind_e (evaluate h g p1 p2 num_evaluate_games) (\<lambda>player1_results.
     bind_e (dict_get player1_results 1) (\<lambda>wins1.
     bind_e (dict_get player1_results (- 1)) (\<lambda>wins2.
     bind_e (dict_get player1_results 0) (\<lambda>draws.
     bind_e (mcts_player h [GameArg g, EstimatorArg estimator2, IntArg iters, FloatArg c]
               [(''tau'', FloatArg tau)]) (\<lambda>q1.
     bind_e (mcts_player h [GameArg g, EstimatorArg estimator1, IntArg iters, FloatArg c]
               [(''tau'', FloatArg tau)]) (\<lambda>q2.
     bind_e (evaluate h g q1 q2 num_evaluate_games) (\<lambda>swapped_results.
     bind_e (dict_get swapped_results (- 1)) (\<lambda>more1.
     bind_e (dict_get swapped_results 1) (\<lambda>more2.
     bind_e (dict_get swapped_results 0) (\<lambda>more_draws.
     Inr (wins1 + more1, wins2 + more2, draws + more_draws)))))))))))))"

definition evaluate_mcts_against_random_player ::
  "('a, 'f, 'p) harness \<Rightarrow> 'a game \<Rightarrow> 'f \<Rightarrow> int \<Rightarrow> real \<Rightarrow> int \<Rightarrow> real \<Rightarrow>
   error + int \<times> int \<times> int" where
  "evaluate_mcts_against_random_player h g estimator iters c num_evaluate_games tau =
     bind_e (mcts_player h [GameArg g, EstimatorArg estimator, IntArg iters, FloatArg c]
               [(''tau'', FloatArg tau)]) (\<lambda>p1.
     bind_e (random_player h [GameArg g] []) (\<lambda>p2.
     bind_e (evaluate h g p1 p2 num_evaluate_games) (\<lambda>player1_results.
     bind_e (dict_get player1_results 1) (\<lambda>wins1.
     bind_e (dict_get player1_results (- 1)) (\<lambda>wins2.
     bind_e (dict_get player1_results 0) (\<lambda>draws.
     bind_e (random_player h [GameArg g] []) (\<lambda>q1.
     bind_e (mcts_player h [GameArg g, EstimatorArg estimator, IntArg iters, FloatArg c]
               [(''tau'', FloatArg tau)]) (\<lambda>q2.
     bind_e (evaluate h g q1 q2 num_evaluate_games) (\<lambda>swapped_results.
     bind_e (dict_get swapped_results (- 1)) (\<lambda>more1.
     bind_e (dict_get swapped_results 1) (\<lambda>more2.
     bind_e (dict_get swapped_results 0) (\<lambda>more_draws.
     Inr (wins1 + more1, wins2 + more2, draws + more_draws)))))))))))))"

text \<open>
  \<open>evaluate_model\<close>, without its printing. \<open>estimate_fn1\<close> and \<open>estimate_fn2\<close> are what
  \<open>create_estimate_fn()\<close> returns for the two estimators. The win rate
  \<open>wins2 / (wins1 + wins2 + draws)\<close> is Python's true division of two integers: it
  raises on a zero total and otherwise returns a float64, the one nearest to the exact
  quotient. A float64 is modelled by the real number it denotes, so comparing two
  floats is comparing reals; the rounding of the division is not defined here but
  passed in as \<open>true_div\<close>.
\<close>

definition evaluate_model ::
  "('a, 'f, 'p) harness \<Rightarrow> (int \<Rightarrow> int \<Rightarrow> real) \<Rightarrow> 'a game \<Rightarrow> 'f \<Rightarrow> 'f \<Rightarrow> int \<Rightarrow> real \<Rightarrow> int \<Rightarrow>
   error + real" where
  "evaluate_model h true_div g estimate_fn1 estimate_fn2 iters c num_games =
     bind_e (evaluate_estimators_in_both_positions h g estimate_fn1 estimate_fn2 iters c
               num_games (1 / 10)) (\<lambda>(wins1, wins2, draws).
     if wins1 + wins2 + draws = 0 then Inl ZeroDivisionError
     else
       let training_win_rate = true_div wins2 (wins1 + wins2 + draws)
       in bind_e (evaluate_mcts_against_random_player h g estimate_fn2 iters c num_games
                    (1 / 10)) (\<lambda>against_random. Inr training_win_rate))"

section \<open>The training loop\<close>

text \<open>
  \<open>compute_checkpoint_name(step, path)\<close> is \<open>path + "{}.checkpoint".format(step)\<close>: the
  step in decimal, with a minus sign when negative.
\<close>

function nat_to_str :: "nat \<Rightarrow> string" where
  "nat_to_str n =
     (if n < 10 then [''0123456789'' ! n]
      else nat_to_str (n div 10) @ [''0123456789'' ! (n mod 10)])"
  by pat_completeness auto
termination
  by (relation "measure id") auto

declare nat_to_str.simps [simp del]

definition int_to_str :: "int \<Rightarrow> string" where
  "int_to_str i = (if i < 0 then CHR ''-'' # nat_to_str (nat (- i)) else nat_to_str (nat i))"

definition compute_checkpoint_name :: "int \<Rightarrow> string \<Rightarrow> string" where
  "compute_checkpoint_name step path = path @ int_to_str step @ ''.checkpoint''"

text \<open>
  Modelled from the spec: the estimator's \<open>save\<close> and \<open>restore\<close> (the estimator classes
  are not in the sources). An estimator is its parameter blob; \<open>save(path)\<close> stores the
  blob under the file name and \<open>restore(path)\<close> reads it back, failing on a missing
  checkpoint. \<open>checkpoint_model(player, step, path)\<close> saves under the computed name.
\<close>

definition checkpoint_model :: "'e \<Rightarrow> int \<Rightarrow> string \<Rightarrow> (string \<rightharpoonup> 'e) \<Rightarrow> (string \<rightharpoonup> 'e)" where
  "checkpoint_model player_params step path saved =
     saved(compute_checkpoint_name step path \<mapsto> player_params)"

definition restore :: "(string \<rightharpoonup> 'e) \<Rightarrow> string \<Rightarrow> error + 'e" where
  "restore saved path =
     (case saved path of None \<Rightarrow> Inl (Collaborator ''restore'') | Some e \<Rightarrow> Inr e)"

text \<open>
  The parameters of \<open>train_alphago\<close> other than the game and the estimator factory.
  \<open>c_puct\<close> and \<open>win_rate\<close> are floats, modelled by the reals they denote.
\<close>

record config =
  self_play_iters :: int
  training_iters :: int
  checkpoint_path :: string
  alphago_steps :: int
  evaluate_every :: int
  batch_size :: int
  mcts_iters :: int
  c_puct :: real
  replay_length :: "int option"
  num_evaluate_games :: int
  win_rate :: real
  restore_step :: "int option"
  self_play_file_path :: "string option"

text \<open>
  What the loop runs against: the game, the estimator factory \<open>create_estimator\<close> with
  the estimator's \<open>create_estimate_fn\<close> and \<open>train\<close> (which returns the trained
  parameters with the losses), the outcome \<open>self_play_of f step i\<close> of the \<open>i\<close>-th
  self-play game of round \<open>step\<close> under the estimate function \<open>f\<close>, the player classes
  with \<open>evaluate\<close>, the readable files, and \<open>true_divide\<close>, the float64 that
  Python's \<open>/\<close> returns for two integers with a nonzero divisor.
\<close>

record ('a, 'e, 'f, 'p) setting =
  the_game :: "'a game"
  create_estimator :: 'e
  create_estimate_fn :: "'e \<Rightarrow> 'f"
  train :: "'e \<Rightarrow> (game_state \<times> real list \<times> real) list \<Rightarrow> int \<Rightarrow> int \<Rightarrow> 'e \<times> real list"
  self_play_of :: "'f \<Rightarrow> int \<Rightarrow> nat \<Rightarrow> error + 'a example list"
  players :: "('a, 'f, 'p) harness"
  readable :: "string set"
  true_divide :: "int \<Rightarrow> int \<Rightarrow> real"

text \<open>
  \<open>optimise\<close> with \<open>output_losses=True\<close>, as the loop calls it: the estimator's
  \<open>train\<close> updates the estimator and returns the losses.
\<close>

definition optimise ::
  "('a, 'e, 'f, 'p) setting \<Rightarrow> 'e \<Rightarrow> (game_state \<times> real list \<times> real) list \<Rightarrow> int \<Rightarrow> int \<Rightarrow>
   'e \<times> real list" where
  "optimise w estimator_params training_data b iters =
     train w estimator_params training_data b iters"

text \<open>
  The variables of the loop, with the checkpoints on disk. \<open>self_play_player\<close> is the
  reference estimator and \<open>training_player\<close> the candidate.
\<close>

record 'e loop_state =
  self_play_player :: 'e
  training_player :: 'e
  checkpoints :: "string \<rightharpoonup> 'e"
  all_losses :: "real list list"

text \<open>One pass through the body of the loop \<open>for alphago_step in range(...)\<close>.\<close>

definition alphago_round ::
  "('a, 'e, 'f, 'p) setting \<Rightarrow> config \<Rightarrow> int \<Rightarrow> 'e loop_state \<Rightarrow> error + 'e loop_state" where
  "alphago_round w cfg alphago_step st =
     bind_e (generate_self_play_data (readable w)
               (self_play_of w (create_estimate_fn w (self_play_player st)) alphago_step)
               (self_play_iters cfg) (self_play_file_path cfg)) (\<lambda>self_play_data.
     let training_data = process_training_data self_play_data (replay_length cfg);
         (trained, losses) =
           optimise w (training_player st) training_data (batch_size cfg) (training_iters cfg);
         st1 = st\<lparr>training_player := trained, all_losses := all_losses st @ [losses]\<rparr>
     in if evaluate_every cfg = 0 then Inl ZeroDivisionError
        else if alphago_step mod evaluate_every cfg = 0 then
          bind_e (evaluate_model (players w) (true_divide w) (the_game w)
                    (create_estimate_fn w (self_play_player st1))
                    (create_estimate_fn w (training_player st1))
                    (mcts_iters cfg) (c_puct cfg) (num_evaluate_games cfg))
            (\<lambda>training_win_rate.
               let st2 = st1\<lparr>checkpoints :=
                               checkpoint_model (training_player st1) alphago_step
                                 (checkpoint_path cfg) (checkpoints st1)\<rparr>
               in if win_rate cfg < training_win_rate then
                    bind_e (restore (checkpoints st2)
                              (compute_checkpoint_name alphago_step (checkpoint_path cfg)))
                      (\<lambda>restored. Inr (st2\<lparr>self_play_player := restored\<rparr>))
                  else Inr st2)
        else Inr st1)"

fun run_rounds ::
  "('a, 'e, 'f, 'p) setting \<Rightarrow> config \<Rightarrow> int list \<Rightarrow> 'e loop_state \<Rightarrow> error + 'e loop_state" where
  "run_rounds w cfg [] st = Inr st"
| "run_rounds w cfg (alphago_step # rest) st =
     bind_e (alphago_round w cfg alphago_step st) (run_rounds w cfg rest)"

text \<open>
  \<open>train_alphago\<close>, from the checkpoints found on disk. \<open>if restore_step:\<close> is false for
  \<open>None\<close> and for 0. The Python returns \<open>all_losses\<close>; the model returns the final
  variables, of which \<open>all_losses\<close> is one.
\<close>

definition train_alphago ::
  "('a, 'e, 'f, 'p) setting \<Rightarrow> config \<Rightarrow> (string \<rightharpoonup> 'e) \<Rightarrow> error + 'e loop_state" where
  "train_alphago w cfg saved =
     (let restoring = (case restore_step cfg of None \<Rightarrow> False | Some r \<Rightarrow> r \<noteq> 0);
          r = (case restore_step cfg of None \<Rightarrow> 0 | Some r \<Rightarrow> r);
          restore_path = compute_checkpoint_name r (checkpoint_path cfg);
          initial_step = (if restoring then r + 1 else 0)
      in bind_e (if restoring
                 then bind_e (restore saved restore_path) (\<lambda>e1.
                      bind_e (restore saved restore_path) (\<lambda>e2. Inr (e1, e2)))
                 else Inr (create_estimator w, create_estimator w)) (\<lambda>(e1, e2).
         run_rounds w cfg [initial_step..initial_step + alphago_steps cfg - 1]
           \<lparr>self_play_player = e1, training_player = e2, checkpoints = saved,
            all_losses = []\<rparr>))"

section \<open>A small game and one of its trajectories\<close>

text \<open>
  Three states of two entries each, the last one terminal with player 1 the winner; the
  states carry the three non-finite values.
\<close>

definition demo_s0 :: game_state where "demo_s0 = [Fin 0, NaN]"
definition demo_s1 :: game_state where "demo_s1 = [Fin 1, PosInf]"
definition demo_s2 :: game_state where "demo_s2 = [Fin 2, NegInf]"

definition demo_game :: "nat game" where
  "demo_game =
     \<lparr>initial_state = demo_s0,
      which_player = (\<lambda>s. if s = demo_s1 then 2 else 1),
      utility = (\<lambda>s. if s = demo_s2 then Inr [1 \<mapsto> 1, 2 \<mapsto> - 1]
                      else Inl (Collaborator ''utility of a non-terminal state'')),
      action_indices = [(0, 0), (1, 1)]\<rparr>"

definition demo_states :: "game_state list" where
  "demo_states = [demo_s0, demo_s1, demo_s2]"

definition demo_actions :: "nat list" where
  "demo_actions = [0, 1]"

definition demo_probs :: "(nat, real) dict list" where
  "demo_probs = [[(0, 1 / 4), (1, 3 / 4)], [(1, 1), (0, 0)]]"

text \<open>The examples the builder returns for this trajectory.\<close>

definition demo_examples :: "nat example list" where
  "demo_examples =
     [([Fin 0, Fin 0], 0, [1 / 4, 3 / 4], 1),
      ([Fin 1, Fin float64_max], 1, [0, 1], - 1)]"

text \<open>A probability dict with an action of probability 0.\<close>

definition demo_sparse :: "(nat, real) dict" where
  "demo_sparse = [(1, 1), (0, 0)]"

section \<open>A small training run\<close>

text \<open>
  Estimators are numbers and training adds one; in a match the player with the larger
  estimator wins every game. \<open>strength\<close> reads the estimator from a player instance.
  The division of the small setting is the exact quotient: the only quotient a run
  below takes is 20 / 20, which is exact in float64.
\<close>

definition strength :: "(nat, nat) instance_dict \<Rightarrow> nat" where
  "strength p = (case map_of p ''estimator'' of Some (EstimatorArg e) \<Rightarrow> e | _ \<Rightarrow> 0)"

definition stronger_wins ::
  "nat game \<Rightarrow> (nat, nat) instance_dict \<Rightarrow> (nat, nat) instance_dict \<Rightarrow> int \<Rightarrow>
   error + (int, int) dict" where
  "stronger_wins g p1 p2 n =
     (if strength p2 < strength p1 then Inr [(1, n), (- 1, 0), (0, 0)]
      else if strength p1 < strength p2 then Inr [(1, 0), (- 1, n), (0, 0)]
      else Inr [(1, 0), (- 1, 0), (0, n)])"

text \<open>The harness with the player classes of \<open>player.py\<close>.\<close>

definition repo_harness :: "(nat, nat, (nat, nat) instance_dict) harness" where
  "repo_harness =
     \<lparr>mcts_player = MCTSPlayer, random_player = RandomPlayer, evaluate = stronger_wins\<rparr>"

text \<open>
  A harness whose player classes have the parameters that \<open>alphago.py\<close> passes:
  \<open>(game, estimator, mcts_iters, c_puct, tau)\<close> and \<open>(game)\<close>.
\<close>

definition tau_harness :: "(nat, nat, (nat, nat) instance_dict) harness" where
  "tau_harness =
     \<lparr>mcts_player =
        bind_arguments [''game'', ''estimator'', ''mcts_iters'', ''c_puct'', ''tau''],
      random_player = bind_arguments [''game''],
      evaluate = stronger_wins\<rparr>"

definition demo_setting ::
  "(nat, nat, (nat, nat) instance_dict) harness \<Rightarrow>
   (nat, nat, nat, (nat, nat) instance_dict) setting" where
  "demo_setting h =
     \<lparr>the_game = demo_game,
      create_estimator = 0,
      create_estimate_fn = (\<lambda>e. e),
      train = (\<lambda>e training_data b iters. (Suc e, [1 / 2])),
      self_play_of = (\<lambda>f step i. Inr demo_examples),
      players = h,
      readable = {},
      true_divide = (\<lambda>a b. real_of_int a / real_of_int b)\<rparr>"

text \<open>
  A run of two rounds restored from round 1, so rounds 2 and 3, with an evaluation
  every 5 rounds.
\<close>

definition demo_config :: config where
  "demo_config =
     \<lparr>self_play_iters = 2, training_iters = 1, checkpoint_path = ''ckpt/'',
      alphago_steps = 2, evaluate_every = 5, batch_size = 32, mcts_iters = 100,
      c_puct = 1, replay_length = Some 100000, num_evaluate_games = 10,
      win_rate = 55 / 100, restore_step = Some 1, self_play_file_path = None\<rparr>"

definition demo_saved :: "string \<rightharpoonup> nat" where
  "demo_saved = [''ckpt/1.checkpoint'' \<mapsto> 7]"

definition demo_start :: "nat loop_state" where
  "demo_start =
     \<lparr>self_play_player = 7, training_player = 7, checkpoints = demo_saved,
      all_losses = []\<rparr>"

text \<open>
  A first run: \<open>train_alphago(game, create_estimator, 2, 1, "ckpt/")\<close> with every other
  parameter at its default, so 100 rounds from round 0 with an evaluation in each.
\<close>

definition first_run_config :: config where
  "first_run_config =
     \<lparr>self_play_iters = 2, training_iters = 1, checkpoint_path = ''ckpt/'',
      alphago_steps = 100, evaluate_every = 1, batch_size = 32, mcts_iters = 100,
      c_puct = 1, replay_length = Some 100000, num_evaluate_games = 500,
      win_rate = 55 / 100, restore_step = None, self_play_file_path = None\<rparr>"

section \<open>A small search\<close>

text \<open>
  A search over the small game that expands two levels below the root it is given, as a
  search of two or more iterations does, and a sampler that draws the first action of
  the distribution.
\<close>

definition demo_leaf :: "nat MCTSNode" where
  "demo_leaf = MCTSNode demo_s2 1 True []"

definition demo_mid :: "nat MCTSNode" where
  "demo_mid = MCTSNode demo_s1 2 False [(1, Edge demo_leaf 1 1 1)]"

definition demo_root_searched :: "nat MCTSNode" where
  "demo_root_searched = MCTSNode demo_s0 1 False [(0, Edge demo_mid 2 (- 1) 1)]"

definition demo_mid_searched :: "nat MCTSNode" where
  "demo_mid_searched = MCTSNode demo_s1 2 False [(1, Edge demo_leaf 3 3 1)]"

definition demo_mcts :: "nat search" where
  "demo_mcts node tau =
     (if game_state node = demo_s0 then Inr ([(0, 1)], demo_root_searched)
      else if game_state node = demo_s1 then Inr ([(1, 1)], demo_mid_searched)
      else Inl (Collaborator ''search from a terminal state''))"

definition demo_sample :: "nat \<Rightarrow> (nat, real) dict \<Rightarrow> nat" where
  "demo_sample move_count probs = (case probs of [] \<Rightarrow> 0 | (a, p) # rest \<Rightarrow> a)"

definition demo_play_log :: "nat play_log" where
  "demo_play_log =
     \<lparr>game_state_list = [demo_s0, demo_s1, demo_s2],
      action_list = [0, 1],
      action_probs_list = [[(0, 1)], [(1, 1)]],
      searched = [(new_node demo_s0 1, demo_root_searched), (demo_mid, demo_mid_searched)]\<rparr>"

text \<open>
  The plies of a play log replayed from a root: each ply's search starts from the node
  the play has reached, and the play goes on from the child that the sampled action
  selects in the tree the search has left.
\<close>

fun replay ::
  "'a search \<Rightarrow> nat \<Rightarrow> 'a MCTSNode \<Rightarrow>
   (('a MCTSNode \<times> 'a MCTSNode) \<times> 'a \<times> ('a, real) dict) list \<Rightarrow> bool" where
  "replay mcts move_count node [] = True"
| "replay mcts move_count node (((r, r'), a, ps) # rest) =
     (r = node \<and> mcts r (1 / (real move_count + 1)) = Inr (ps, r') \<and>
      (case dict_get (children r') a of
         Inl e \<Rightarrow> False
       | Inr e \<Rightarrow> replay mcts (Suc move_count) (child e) rest))"

section \<open>Properties of the example builder\<close>

lemma build_examples_length:
  "build_examples g outcome ai ts = Inr exs \<Longrightarrow> length exs = length ts"
  by (induction ts arbitrary: exs) (auto split: sum.splits)

lemma build_examples_nth:
  "build_examples g outcome ai ts = Inr exs \<Longrightarrow> i < length ts \<Longrightarrow>
   build_example g outcome ai (ts ! i) = Inr (exs ! i)"
proof (induction ts arbitrary: exs i)
  case Nil
  then show ?case by simp
next
  case (Cons t ts)
  then show ?case
    by (cases i) (auto split: sum.splits)
qed

lemma build_example_fields:
  "build_example g outcome ai (s, a, probs) = Inr ex \<Longrightarrow>
   fst ex = nan_to_num s \<and> fst (snd ex) = a \<and>
   probs_vector ai probs = Inr (fst (snd (snd ex))) \<and>
   outcome (which_player g s) = Some (snd (snd (snd ex)))"
  by (auto simp: build_example_def split: option.splits sum.splits)

lemma np_position_ok:
  "- int n \<le> i \<Longrightarrow> i < int n \<Longrightarrow> \<exists>j. np_position n i = Inr j \<and> j < n"
  by (auto simp: np_position_def Let_def)

lemma np_position_bound: "np_position n i = Inr j \<Longrightarrow> j < n"
  by (auto simp: np_position_def Let_def split: if_splits)

lemma fill_probs_length: "fill_probs ai probs v0 = Inr v \<Longrightarrow> length v = length v0"
  by (induction ai probs v0 rule: fill_probs.induct)
     (auto simp: np_setitem_def split: sum.splits)

lemma fill_probs_ok:
  "indexable ai probs \<Longrightarrow> length v0 = length ai \<Longrightarrow> \<exists>v. fill_probs ai probs v0 = Inr v"
proof (induction ai probs v0 rule: fill_probs.induct)
  case (1 ai v)
  then show ?case by simp
next
  case (2 ai a prob rest v)
  from "2.prems" obtain i where i: "dict_get ai a = Inr i" "- int (length ai) \<le> i" "i < int (length ai)"
    by (auto simp: indexable_def split: sum.splits)
  with "2.prems" obtain j where j: "np_position (length v) i = Inr j"
    using np_position_ok [of "length ai" i] by auto
  have "indexable ai rest" using "2.prems" by (simp add: indexable_def)
  with 2 i j show ?case by (simp add: np_setitem_def)
qed

lemma build_examples_ok:
  "list_all (\<lambda>s. outcome (which_player g s) \<noteq> None) (map fst ts) \<Longrightarrow>
   list_all (indexable ai) (map (snd \<circ> snd) ts) \<Longrightarrow>
   \<exists>exs. build_examples g outcome ai ts = Inr exs"
proof (induction ts)
  case Nil
  then show ?case by simp
next
  case (Cons t ts)
  obtain s a probs where t: "t = (s, a, probs)" by (cases t)
  from Cons.prems t obtain z where z: "outcome (which_player g s) = Some z" by auto
  from Cons.prems t have "indexable ai probs" by simp
  then obtain pv where pv: "probs_vector ai probs = Inr pv"
    using fill_probs_ok [of ai probs "replicate (length ai) 0"] by (auto simp: probs_vector_def)
  from Cons obtain exs where "build_examples g outcome ai ts = Inr exs" by auto
  with t z pv show ?case by (simp add: build_example_def)
qed

text \<open>
  Claim C6. A completed trajectory has \<open>k\<close> states, the last one terminal, with \<open>k - 1\<close>
  actions and \<open>k - 1\<close> probability dicts. Whenever the builder returns for it, it returns
  exactly \<open>k - 1\<close> examples: the sanitised states without the last one, in order, each
  with its action. It does return whenever the trajectory is well formed, that is when
  no lookup of the game's utility or of an action's index raises.
\<close>

theorem process_self_play_data_count:
  assumes "length states = k" and "0 < k"
    and "length actions = k - 1" and "length action_probs = k - 1"
  shows "(\<forall>data. fst (process_self_play_data states actions action_probs g ai) = Inr data \<longrightarrow>
            length data = k - 1 \<and>
            map fst data = map nan_to_num (butlast states) \<and>
            map (fst \<circ> snd) data = actions) \<and>
         (well_formed g ai states action_probs \<longrightarrow>
            (\<exists>data. fst (process_self_play_data states actions action_probs g ai) = Inr data))"
proof (intro conjI allI impI)
  fix data
  assume r: "fst (process_self_play_data states actions action_probs g ai) = Inr data"
  from assms have ne: "states \<noteq> []" by auto
  let ?ts = "zip (butlast states) (zip actions action_probs)"
  from r ne obtain outcome where
    b: "build_examples g outcome ai ?ts = Inr data"
    by (auto simp: process_self_play_data_def Let_def split: sum.splits)
  have lts: "length ?ts = k - 1" using assms by simp
  show len: "length data = k - 1" using build_examples_length [OF b] lts by simp
  have nth: "\<And>i. i < k - 1 \<Longrightarrow>
      fst (data ! i) = nan_to_num (butlast states ! i) \<and> fst (snd (data ! i)) = actions ! i"
  proof -
    fix i assume i: "i < k - 1"
    with lts have "build_example g outcome ai (?ts ! i) = Inr (data ! i)"
      using build_examples_nth [OF b, of i] by simp
    moreover have "?ts ! i = (butlast states ! i, actions ! i, action_probs ! i)"
      using i assms by simp
    ultimately show "fst (data ! i) = nan_to_num (butlast states ! i) \<and> fst (snd (data ! i)) = actions ! i"
      using build_example_fields by metis
  qed
  show "map fst data = map nan_to_num (butlast states)"
    using len assms nth by (intro nth_equalityI) auto
  show "map (fst \<circ> snd) data = actions"
    using len assms nth by (intro nth_equalityI) auto
next
  assume wf: "well_formed g ai states action_probs"
  from assms have ne: "states \<noteq> []" by auto
  let ?ts = "zip (butlast states) (zip actions action_probs)"
  from wf obtain outcome where u: "utility g (last states) = Inr outcome"
    and m: "list_all (\<lambda>s. outcome (which_player g s) \<noteq> None) (butlast states)"
    and ix: "list_all (indexable ai) action_probs"
    by (auto simp: well_formed_def split: sum.splits)
  have "map fst ?ts = butlast states" using assms by simp
  moreover have "map (snd \<circ> snd) ?ts = action_probs" using assms
    by (simp add: map_snd_zip flip: map_map)
  ultimately obtain exs where "build_examples g outcome ai ?ts = Inr exs"
    using build_examples_ok [of outcome g ?ts ai] m ix by auto
  with u ne show "\<exists>data. fst (process_self_play_data states actions action_probs g ai) = Inr data"
    by (simp add: process_self_play_data_def Let_def)
qed


lemma demo_states_distinct:
  "demo_s0 \<noteq> demo_s1" "demo_s0 \<noteq> demo_s2" "demo_s1 \<noteq> demo_s2"
  by (simp_all add: demo_s0_def demo_s1_def demo_s2_def)

lemma demo_well_formed:
  "well_formed demo_game (action_indices demo_game) demo_states demo_probs"
  using demo_states_distinct
  by (simp add: well_formed_def demo_game_def demo_probs_def demo_states_def indexable_def
      dict_get_def)

lemma demo_run:
  "process_self_play_data demo_states demo_actions demo_probs demo_game
     (action_indices demo_game) = (Inr demo_examples, [demo_s0, demo_s1])"
  using demo_states_distinct
  by (simp add: process_self_play_data_def demo_game_def demo_probs_def demo_states_def
      demo_actions_def demo_examples_def build_example_def
      probs_vector_def dict_get_def np_setitem_def np_position_def nan_to_num_def
      demo_s0_def demo_s1_def)

theorem process_self_play_data_count_witness:
  "length demo_states = 3 \<and> length demo_actions = 3 - 1 \<and> length demo_probs = 3 - 1 \<and>
   (\<exists>data. fst (process_self_play_data demo_states demo_actions demo_probs demo_game
                  (action_indices demo_game)) = Inr data \<and> length data = 3 - 1)"
proof -
  have l: "length demo_states = 3" "0 < (3::nat)"
    "length demo_actions = 3 - 1" "length demo_probs = 3 - 1"
    by (simp_all add: demo_probs_def demo_states_def demo_actions_def)
  from process_self_play_data_count [OF l, of demo_game "action_indices demo_game"]
    demo_well_formed l
  show ?thesis by blast
qed

lemma process_self_play_data_nth:
  assumes r: "fst (process_self_play_data states actions action_probs g ai) = Inr data"
    and i: "i < length data"
  shows "\<exists>outcome. utility g (last states) = Inr outcome \<and>
           i < length states - 1 \<and> i < length actions \<and> i < length action_probs \<and>
           build_example g outcome ai (states ! i, actions ! i, action_probs ! i) =
             Inr (data ! i)"
proof -
  let ?ts = "zip (butlast states) (zip actions action_probs)"
  from r have ne: "states \<noteq> []"
    by (auto simp: process_self_play_data_def)
  with r obtain outcome where u: "utility g (last states) = Inr outcome"
    and b: "build_examples g outcome ai ?ts = Inr data"
    by (auto simp: process_self_play_data_def Let_def split: sum.splits)
  from build_examples_length [OF b] i have il: "i < length ?ts" by simp
  then have bounds: "i < length states - 1" "i < length actions" "i < length action_probs"
    by simp_all
  from il have "?ts ! i = (butlast states ! i, actions ! i, action_probs ! i)" by simp
  moreover have "butlast states ! i = states ! i"
    using bounds by (simp add: nth_butlast)
  ultimately have "build_example g outcome ai (states ! i, actions ! i, action_probs ! i) =
      Inr (data ! i)"
    using build_examples_nth [OF b il] by simp
  with u bounds show ?thesis by blast
qed

lemma demo_result:
  "fst (process_self_play_data demo_states demo_actions demo_probs demo_game
          (action_indices demo_game)) = Inr demo_examples"
  by (simp add: demo_run)

lemma demo_last: "last demo_states = demo_s2" "demo_states ! Suc 0 = demo_s1"
  by (simp_all add: demo_states_def)

text \<open>
  Claim C7. In every example the builder returns, the outcome scalar is the entry of
  the game's utility for the trajectory's final state at the player to move in the
  example's state.
\<close>

theorem outcome_is_terminal_utility:
  assumes "fst (process_self_play_data states actions action_probs g ai) = Inr data"
    and "i < length data"
  shows "\<exists>outcome. utility g (last states) = Inr outcome \<and>
           outcome (which_player g (states ! i)) = Some (snd (snd (snd (data ! i))))"
proof -
  from process_self_play_data_nth [OF assms] obtain outcome where
    u: "utility g (last states) = Inr outcome" and
    b: "build_example g outcome ai (states ! i, actions ! i, action_probs ! i) = Inr (data ! i)"
    by blast
  from build_example_fields [OF b]
  have "outcome (which_player g (states ! i)) = Some (snd (snd (snd (data ! i))))" by simp
  with u show ?thesis by blast
qed

theorem outcome_is_terminal_utility_witness:
  "\<exists>outcome. utility demo_game demo_s2 = Inr outcome \<and>
      outcome (which_player demo_game demo_s1) = Some (- 1)"
proof -
  have "Suc 0 < length demo_examples" by (simp add: demo_examples_def)
  from outcome_is_terminal_utility [OF demo_result this] show ?thesis
    by (simp add: demo_last demo_examples_def)
qed

lemma nan_to_num1_finite: "is_finite (nan_to_num1 x)"
  by (cases x) simp_all

lemma nan_to_num_nth:
  "j < length s \<Longrightarrow>
   nan_to_num s ! j =
     (case s ! j of NaN \<Rightarrow> Fin 0 | PosInf \<Rightarrow> Fin float64_max
      | NegInf \<Rightarrow> Fin (- float64_max) | Fin x \<Rightarrow> Fin x)"
  by (cases "s ! j") (simp_all add: nan_to_num_def)

lemma float64_max_pos: "0 < float64_max"
proof -
  have "(0::real) < 2 - 1 / 2 ^ 52"
  proof -
    have "(1::real) / 2 ^ 52 \<le> 1" by (simp add: divide_le_eq)
    then show ?thesis by linarith
  qed
  moreover have "(0::real) < 2 ^ 1023" by (rule zero_less_power) simp
  ultimately show ?thesis unfolding float64_max_def by (rule mult_pos_pos)
qed

text \<open>
  Claim C9, as amended. The state of every returned example is \<open>nan_to_num\<close> of the
  trajectory's state: entry by entry, NaN has become 0, positive infinity the largest
  finite float64, negative infinity its negation, and a finite entry is unchanged. No
  non-finite entry is left, and the sanitising step raises nothing.
\<close>

theorem emitted_state_sanitised:
  assumes "fst (process_self_play_data states actions action_probs g ai) = Inr data"
    and "i < length data"
  shows "fst (data ! i) = nan_to_num (states ! i) \<and>
         length (fst (data ! i)) = length (states ! i) \<and>
         list_all is_finite (fst (data ! i)) \<and>
         (\<forall>j < length (states ! i).
            fst (data ! i) ! j =
              (case states ! i ! j of
                 NaN \<Rightarrow> Fin 0
               | PosInf \<Rightarrow> Fin float64_max
               | NegInf \<Rightarrow> Fin (- float64_max)
               | Fin x \<Rightarrow> Fin x))"
proof -
  from process_self_play_data_nth [OF assms] obtain outcome where
    b: "build_example g outcome ai (states ! i, actions ! i, action_probs ! i) = Inr (data ! i)"
    by blast
  from build_example_fields [OF b]
  have e: "fst (data ! i) = nan_to_num (states ! i)" by simp
  have f: "list_all is_finite (nan_to_num (states ! i))"
    by (simp add: nan_to_num_def list_all_iff nan_to_num1_finite)
  have l: "length (nan_to_num (states ! i)) = length (states ! i)"
    by (simp add: nan_to_num_def)
  show ?thesis
    unfolding e using f l by (simp add: nan_to_num_nth)
qed

theorem emitted_state_sanitised_witness:
  "fst (demo_examples ! Suc 0) = nan_to_num demo_s1 \<and>
   list_all is_finite (fst (demo_examples ! Suc 0))"
proof -
  have "Suc 0 < length demo_examples" by (simp add: demo_examples_def)
  from emitted_state_sanitised [OF demo_result this] show ?thesis
    unfolding demo_last by (elim conjE) (intro conjI)
qed

text \<open>
  Claim C9 as stated fails on an infinite entry: the second state of the small
  trajectory holds positive infinity at position 1, and the example built from it holds
  the largest finite float64 there, not 0.
\<close>

theorem infinity_not_zeroed_counterexample:
  "fst (process_self_play_data demo_states demo_actions demo_probs demo_game
          (action_indices demo_game)) = Inr demo_examples \<and>
   demo_states ! Suc 0 ! Suc 0 = PosInf \<and> fst (demo_examples ! Suc 0) ! Suc 0 \<noteq> Fin 0"
proof -
  have "demo_states ! Suc 0 ! Suc 0 = PosInf"
    by (simp add: demo_states_def demo_s1_def)
  moreover have "fst (demo_examples ! Suc 0) ! Suc 0 \<noteq> Fin 0"
    using float64_max_pos by (simp add: demo_examples_def)
  ultimately show ?thesis using demo_result by simp
qed

text \<open>
  Claim C10. After every call the caller's list of states is the list it was without
  its last element, whatever the call returns or raises after the \<open>pop\<close>: a non-empty
  list has lost exactly its last element. On the empty list \<open>pop\<close> raises IndexError at
  once and there is no element to lose. The other arguments are only read (\<open>zip\<close>,
  \<open>items\<close>, lookups, and \<open>nan_to_num\<close> copies), so the list of states is the only state
  the model threads.
\<close>

theorem states_list_popped:
  "snd (process_self_play_data states actions action_probs g ai) = butlast states \<and>
   (states \<noteq> [] \<longrightarrow>
      length (snd (process_self_play_data states actions action_probs g ai)) =
        length states - 1 \<and>
      states = snd (process_self_play_data states actions action_probs g ai) @ [last states]) \<and>
   (states = [] \<longrightarrow>
      fst (process_self_play_data states actions action_probs g ai) = Inl IndexError)"
proof -
  have "snd (process_self_play_data states actions action_probs g ai) = butlast states"
    by (simp add: process_self_play_data_def Let_def split: sum.splits)
  moreover have "states = [] \<longrightarrow>
      fst (process_self_play_data states actions action_probs g ai) = Inl IndexError"
    by (simp add: process_self_play_data_def)
  ultimately show ?thesis by simp
qed

theorem states_list_popped_witness:
  "demo_states \<noteq> [] \<and>
   snd (process_self_play_data demo_states demo_actions demo_probs demo_game
          (action_indices demo_game)) = [demo_s0, demo_s1] \<and>
   length (snd (process_self_play_data demo_states demo_actions demo_probs demo_game
          (action_indices demo_game))) = length demo_states - 1"
proof -
  have ne: "demo_states \<noteq> []" by (simp add: demo_states_def)
  from states_list_popped [of demo_states demo_actions demo_probs demo_game
      "action_indices demo_game"]
  have "snd (process_self_play_data demo_states demo_actions demo_probs demo_game
          (action_indices demo_game)) = butlast demo_states"
    and "demo_states \<noteq> [] \<longrightarrow>
      length (snd (process_self_play_data demo_states demo_actions demo_probs demo_game
          (action_indices demo_game))) = length demo_states - 1"
    by blast+
  with ne show ?thesis by (simp add: demo_states_def)
qed

section \<open>Properties of the dense policy vector\<close>

lemma fill_probs_slots:
  "fill_probs ai probs v0 = Inr v \<Longrightarrow> length v0 = length ai \<Longrightarrow> (a, p) \<in> set probs \<Longrightarrow>
   \<exists>j < length ai. action_slot ai a = Inr j"
proof (induction ai probs v0 rule: fill_probs.induct)
  case (1 ai v)
  then show ?case by simp
next
  case (2 ai a0 prob rest v0)
  from "2.prems"(1) obtain i j where i: "dict_get ai a0 = Inr i"
    and j: "np_position (length v0) i = Inr j"
    and rest: "fill_probs ai rest (v0[j := prob]) = Inr v"
    by (auto simp: np_setitem_def split: sum.splits)
  show ?case
  proof (cases "(a, p) = (a0, prob)")
    case True
    with i j "2.prems"(2) np_position_bound [OF j] show ?thesis
      by (simp add: action_slot_def)
  next
    case False
    with "2.prems"(3) have "(a, p) \<in> set rest" by auto
    moreover have "np_setitem v0 i prob = Inr (v0[j := prob])" using j by (simp add: np_setitem_def)
    ultimately show ?thesis
      using "2.IH" [OF i _ rest] "2.prems"(2) by simp
  qed
qed

lemma fill_probs_untouched:
  "fill_probs ai probs v0 = Inr v \<Longrightarrow> length v0 = length ai \<Longrightarrow>
   \<forall>a \<in> fst ` set probs. action_slot ai a \<noteq> Inr j \<Longrightarrow> v ! j = v0 ! j"
proof (induction ai probs v0 rule: fill_probs.induct)
  case (1 ai v)
  then show ?case by simp
next
  case (2 ai a0 prob rest v0)
  from "2.prems"(1) obtain i j0 where i: "dict_get ai a0 = Inr i"
    and j0: "np_position (length v0) i = Inr j0"
    and rest: "fill_probs ai rest (v0[j0 := prob]) = Inr v"
    by (auto simp: np_setitem_def split: sum.splits)
  have s: "np_setitem v0 i prob = Inr (v0[j0 := prob])" using j0 by (simp add: np_setitem_def)
  from i j0 "2.prems"(2) have "action_slot ai a0 = Inr j0" by (simp add: action_slot_def)
  with "2.prems"(3) have ne: "j0 \<noteq> j" by auto
  from "2.prems"(3) have "\<forall>a \<in> fst ` set rest. action_slot ai a \<noteq> Inr j" by auto
  with "2.IH" [OF i s rest] "2.prems"(2) have "v ! j = (v0[j0 := prob]) ! j" by simp
  with ne show ?case by simp
qed

lemma fill_probs_written:
  "fill_probs ai probs v0 = Inr v \<Longrightarrow> length v0 = length ai \<Longrightarrow>
   distinct (map fst probs) \<Longrightarrow> inj_on (action_slot ai) (fst ` set probs) \<Longrightarrow>
   (a, p) \<in> set probs \<Longrightarrow> action_slot ai a = Inr j \<Longrightarrow> v ! j = p"
proof (induction ai probs v0 rule: fill_probs.induct)
  case (1 ai v)
  then show ?case by simp
next
  case (2 ai a0 prob rest v0)
  from "2.prems"(1) obtain i j0 where i: "dict_get ai a0 = Inr i"
    and j0: "np_position (length v0) i = Inr j0"
    and rest: "fill_probs ai rest (v0[j0 := prob]) = Inr v"
    by (auto simp: np_setitem_def split: sum.splits)
  have s: "np_setitem v0 i prob = Inr (v0[j0 := prob])" using j0 by (simp add: np_setitem_def)
  have len: "length (v0[j0 := prob]) = length ai" using "2.prems"(2) by simp
  have slot0: "action_slot ai a0 = Inr j0"
    using i j0 "2.prems"(2) by (simp add: action_slot_def)
  have inj: "inj_on (action_slot ai) (fst ` set rest)"
    using "2.prems"(4) by (auto intro: inj_on_subset)
  have dist: "distinct (map fst rest)" and fresh: "a0 \<notin> fst ` set rest"
    using "2.prems"(3) by auto
  show ?case
  proof (cases "(a, p) \<in> set rest")
    case True
    from "2.IH" [OF i s rest len dist inj True "2.prems"(6)] show ?thesis .
  next
    case False
    with "2.prems"(5) have eq: "a = a0" "p = prob" by auto
    with slot0 "2.prems"(6) have jj: "j = j0" by simp
    have "\<forall>a' \<in> fst ` set rest. action_slot ai a' \<noteq> Inr j0"
    proof
      fix a' assume a': "a' \<in> fst ` set rest"
      with fresh have "a' \<noteq> a0" by auto
      moreover have "a' \<in> fst ` set ((a0, prob) # rest)" "a0 \<in> fst ` set ((a0, prob) # rest)"
        using a' by auto
      ultimately have "action_slot ai a' \<noteq> action_slot ai a0"
        using "2.prems"(4) unfolding inj_on_def by blast
      with slot0 show "action_slot ai a' \<noteq> Inr j0" by simp
    qed
    from fill_probs_untouched [OF rest len this] have "v ! j0 = (v0[j0 := prob]) ! j0" .
    moreover have "j0 < length v0" using np_position_bound [OF j0] .
    ultimately show ?thesis using eq jj by simp
  qed
qed


text \<open>
  Claim C8, as amended. For a probability dict whose actions are written to distinct
  slots of the vector, the slot of every action of the dict holds the dict's probability
  for that action, and the slots with a nonzero entry are exactly the slots of the
  actions whose probability is not 0. An action of probability 0 is in the dict and
  leaves a zero entry.
\<close>

theorem dense_vector_support:
  assumes v: "probs_vector ai probs = Inr v"
    and dist: "distinct (map fst probs)"
    and inj: "inj_on (action_slot ai) (fst ` set probs)"
  shows "length v = length ai \<and>
         (\<forall>(a, p) \<in> set probs. \<exists>j < length v. action_slot ai a = Inr j \<and> v ! j = p) \<and>
         nonzero_support v =
           {j. \<exists>(a, p) \<in> set probs. p \<noteq> 0 \<and> action_slot ai a = Inr j}"
proof -
  let ?v0 = "replicate (length ai) (0::real)"
  from v have f: "fill_probs ai probs ?v0 = Inr v" by (simp add: probs_vector_def)
  have l0: "length ?v0 = length ai" by simp
  from fill_probs_length [OF f] have len: "length v = length ai" by simp
  have written: "\<And>a p. (a, p) \<in> set probs \<Longrightarrow>
      \<exists>j < length v. action_slot ai a = Inr j \<and> v ! j = p"
  proof -
    fix a p assume ap: "(a, p) \<in> set probs"
    from fill_probs_slots [OF f l0 ap] obtain j where j: "j < length ai" "action_slot ai a = Inr j"
      by blast
    from fill_probs_written [OF f l0 dist inj ap j(2)] j len
    show "\<exists>j < length v. action_slot ai a = Inr j \<and> v ! j = p" by auto
  qed
  have supp: "nonzero_support v =
      {j. \<exists>(a, p) \<in> set probs. p \<noteq> 0 \<and> action_slot ai a = Inr j}"
  proof (rule set_eqI)
    fix j
    show "j \<in> nonzero_support v \<longleftrightarrow>
          j \<in> {j. \<exists>(a, p) \<in> set probs. p \<noteq> 0 \<and> action_slot ai a = Inr j}"
    proof
      assume "j \<in> nonzero_support v"
      then have jl: "j < length v" and nz: "v ! j \<noteq> 0" by (simp_all add: nonzero_support_def)
      have "\<exists>a \<in> fst ` set probs. action_slot ai a = Inr j"
      proof (rule ccontr)
        assume "\<not> (\<exists>a \<in> fst ` set probs. action_slot ai a = Inr j)"
        then have "\<forall>a \<in> fst ` set probs. action_slot ai a \<noteq> Inr j" by blast
        from fill_probs_untouched [OF f l0 this] jl len have "v ! j = 0" by simp
        with nz show False by simp
      qed
      then obtain a p where ap: "(a, p) \<in> set probs" and s: "action_slot ai a = Inr j" by auto
      from fill_probs_written [OF f l0 dist inj ap s] nz have "p \<noteq> 0" by simp
      with ap s show "j \<in> {j. \<exists>(a, p) \<in> set probs. p \<noteq> 0 \<and> action_slot ai a = Inr j}"
        by blast
    next
      assume "j \<in> {j. \<exists>(a, p) \<in> set probs. p \<noteq> 0 \<and> action_slot ai a = Inr j}"
      then obtain a p where ap: "(a, p) \<in> set probs" and nz: "p \<noteq> 0"
        and s: "action_slot ai a = Inr j" by blast
      from fill_probs_slots [OF f l0 ap] s have "j < length ai" by simp
      moreover from fill_probs_written [OF f l0 dist inj ap s] nz have "v ! j \<noteq> 0" by simp
      ultimately show "j \<in> nonzero_support v" using len by (simp add: nonzero_support_def)
    qed
  qed
  from len written supp show ?thesis by blast
qed

lemma demo_sparse_vector:
  "probs_vector (action_indices demo_game) demo_sparse = Inr [0, 1]"
  by (simp add: probs_vector_def demo_game_def demo_sparse_def dict_get_def np_setitem_def
      np_position_def)

lemma demo_slots:
  "action_slot (action_indices demo_game) 0 = Inr 0"
  "action_slot (action_indices demo_game) (Suc 0) = Inr (Suc 0)"
  by (simp_all add: action_slot_def demo_game_def dict_get_def np_position_def)

theorem dense_vector_support_witness:
  "distinct (map fst demo_sparse) \<and>
   nonzero_support [0, 1] =
     {j. \<exists>(a, p) \<in> set demo_sparse. p \<noteq> 0 \<and> action_slot (action_indices demo_game) a = Inr j}"
proof -
  have d: "distinct (map fst demo_sparse)" by (simp add: demo_sparse_def)
  have i: "inj_on (action_slot (action_indices demo_game)) (fst ` set demo_sparse)"
    by (simp add: demo_sparse_def demo_slots)
  from dense_vector_support [OF demo_sparse_vector d i] d show ?thesis by blast
qed

text \<open>
  Claim C8 as stated fails on a dict with an action of probability 0: action 0 is in
  the dict and has index 0, but entry 0 of the vector is zero, so index 0 is not in
  the nonzero support.
\<close>

theorem zero_probability_counterexample:
  "probs_vector (action_indices demo_game) demo_sparse = Inr [0, 1] \<and>
   map_of demo_sparse 0 = Some 0 \<and>
   action_slot (action_indices demo_game) 0 = Inr 0 \<and>
   0 \<notin> nonzero_support [0, 1]"
proof -
  have "map_of demo_sparse 0 = Some 0" by (simp add: demo_sparse_def)
  moreover have "0 \<notin> nonzero_support [0, 1]" by (simp add: nonzero_support_def)
  ultimately show ?thesis using demo_sparse_vector demo_slots(1) by simp
qed

section \<open>Properties of the data generation and of the match\<close>

lemma store_games_one_key:
  "d = [] \<or> (\<exists>u. d = [(index, u)]) \<Longrightarrow>
   store_games (\<lambda>i. Inr (t i)) xs index d =
     Inr (if xs = [] then d else [(index, t (last xs))])"
proof (induction xs arbitrary: d)
  case Nil
  then show ?case by simp
next
  case (Cons x xs)
  have "dict_set index (t x) d = [(index, t x)]"
    using Cons.prems by auto
  then show ?case
    using Cons.IH [of "[(index, t x)]"] by (simp add: bind_e_def)
qed

lemma generate_without_file:
  "generate_self_play_data files (\<lambda>i. Inr (t i)) (int (Suc n)) None = Inr [(0, t n)]"
proof -
  have "store_games (\<lambda>i. Inr (t i)) [0..<Suc n] 0 [] = Inr [(0, t n)]"
    using store_games_one_key [of "[]" 0 t "[0..<Suc n]"] by simp
  then show ?thesis
    unfolding generate_self_play_data_def nat_int by simp
qed

text \<open>
  Claim C2 does not hold of the code. Without a save file, a run of \<open>n + 1\<close> games that
  all return stores every game under key 0, so the mapping ends with the single key 0
  holding the last game. With a save file the function raises before it reads a key.
\<close>

theorem all_games_under_one_key:
  "generate_self_play_data files (\<lambda>i. Inr (t i)) (int (Suc n)) None = Inr [(0, t n)] \<and>
   generate_self_play_data files play num_iters (Some path) =
     Inl (if path \<in> files then AttributeError else FileNotFoundError)"
proof -
  have "generate_self_play_data files play num_iters (Some path) =
     Inl (if path \<in> files then AttributeError else FileNotFoundError)"
    by (simp add: generate_self_play_data_def)
  with generate_without_file [of files t n] show ?thesis by simp
qed

lemma MCTSPlayer_rejects_tau:
  "MCTSPlayer [GameArg g, EstimatorArg e, IntArg iters, FloatArg c] [(''tau'', FloatArg tau)] =
     Inl TypeError"
  by (simp add: MCTSPlayer_def bind_arguments_def)

lemma RandomPlayer_misses_game:
  "RandomPlayer [GameArg g] [] = Inl TypeError"
  by (simp add: RandomPlayer_def bind_arguments_def)

text \<open>
  Claim C5 does not hold of the code. With the player classes of \<open>player.py\<close>, the
  first construction \<open>MCTSPlayer(game, estimator1, mcts_iters, c_puct, tau=tau)\<close> raises
  TypeError, for every game, pair of estimators and \<open>evaluate\<close>: no game of the match
  is played.
\<close>

theorem match_raises_type_error:
  "evaluate_estimators_in_both_positions
     \<lparr>mcts_player = MCTSPlayer, random_player = RandomPlayer, evaluate = ev\<rparr>
     g estimator1 estimator2 iters c n tau = Inl TypeError"
  by (simp add: evaluate_estimators_in_both_positions_def MCTSPlayer_rejects_tau bind_e_def)

text \<open>
  With player classes that accept the call, the match adds the two passes as written:
  the first estimator's wins are its wins in seat 1 and the losses of seat 1 in the
  swapped pass.
\<close>

lemma match_accumulates:
  assumes "mcts_player h [GameArg g, EstimatorArg e1, IntArg iters, FloatArg c]
             [(''tau'', FloatArg tau)] = Inr pa"
    and "mcts_player h [GameArg g, EstimatorArg e2, IntArg iters, FloatArg c]
             [(''tau'', FloatArg tau)] = Inr pb"
    and "evaluate h g pa pb n = Inr [(1, w1), (- 1, l1), (0, d1)]"
    and "evaluate h g pb pa n = Inr [(1, w2), (- 1, l2), (0, d2)]"
  shows "evaluate_estimators_in_both_positions h g e1 e2 iters c n tau =
           Inr (w1 + l2, l1 + w2, d1 + d2)"
  using assms
  by (simp add: evaluate_estimators_in_both_positions_def bind_e_def dict_get_def)

section \<open>Properties of the training loop\<close>

text \<open>
  How a round that returns has gone. If its index is not a multiple of
  \<open>evaluate_every\<close>, checkpoints and reference are untouched. Otherwise the match between
  reference and candidate has returned the counts \<open>wins1\<close>, \<open>wins2\<close> and \<open>draws\<close>, the
  candidate's win rate is \<open>wins2 / (wins1 + wins2 + draws)\<close>, the match against the random
  player has returned too, the candidate is checkpointed, and the reference is the
  checkpointed candidate exactly when the rate is strictly above \<open>win_rate\<close>.
\<close>

lemma alphago_round_cases:
  assumes r: "alphago_round w cfg step st = Inr st'"
  obtains (skip) "evaluate_every cfg \<noteq> 0" "step mod evaluate_every cfg \<noteq> 0"
      "checkpoints st' = checkpoints st" "self_play_player st' = self_play_player st"
  | (evaluated) wins1 wins2 draws against_random where
      "evaluate_every cfg \<noteq> 0" "step mod evaluate_every cfg = 0"
      "evaluate_estimators_in_both_positions (players w) (the_game w)
         (create_estimate_fn w (self_play_player st))
         (create_estimate_fn w (training_player st')) (mcts_iters cfg) (c_puct cfg)
         (num_evaluate_games cfg) (1 / 10) = Inr (wins1, wins2, draws)"
      "wins1 + wins2 + draws \<noteq> 0"
      "evaluate_mcts_against_random_player (players w) (the_game w)
         (create_estimate_fn w (training_player st')) (mcts_iters cfg) (c_puct cfg)
         (num_evaluate_games cfg) (1 / 10) = Inr against_random"
      "checkpoints st' =
         (checkpoints st)(compute_checkpoint_name step (checkpoint_path cfg) \<mapsto> training_player st')"
      "win_rate cfg < true_divide w wins2 (wins1 + wins2 + draws) \<longrightarrow>
         self_play_player st' = training_player st'"
      "true_divide w wins2 (wins1 + wins2 + draws) \<le> win_rate cfg \<longrightarrow>
         self_play_player st' = self_play_player st"
proof -
  from r obtain self_play_data where
    "generate_self_play_data (readable w)
       (self_play_of w (create_estimate_fn w (self_play_player st)) step)
       (self_play_iters cfg) (self_play_file_path cfg) = Inr self_play_data"
    by (auto simp: alphago_round_def bind_e_def split: sum.splits)
  note g = this
  obtain trained losses where t:
    "optimise w (training_player st) (process_training_data self_play_data (replay_length cfg))
       (batch_size cfg) (training_iters cfg) = (trained, losses)"
    by (cases "optimise w (training_player st)
                 (process_training_data self_play_data (replay_length cfg))
                 (batch_size cfg) (training_iters cfg)")
  let ?st1 = "st\<lparr>training_player := trained, all_losses := all_losses st @ [losses]\<rparr>"
  from r g t have ee: "evaluate_every cfg \<noteq> 0"
    by (auto simp: alphago_round_def bind_e_def Let_def split: if_splits)
  show thesis
  proof (cases "step mod evaluate_every cfg = 0")
    case False
    with r g t ee have "st' = ?st1"
      by (simp add: alphago_round_def bind_e_def Let_def)
    with False ee show thesis by (intro skip) simp_all
  next
    case True
    let ?f1 = "create_estimate_fn w (self_play_player st)"
    let ?f2 = "create_estimate_fn w trained"
    let ?name = "compute_checkpoint_name step (checkpoint_path cfg)"
    let ?st2 = "?st1\<lparr>checkpoints := (checkpoints st)(?name \<mapsto> trained)\<rparr>"
    from r g t ee True obtain rate where
      m: "evaluate_model (players w) (true_divide w) (the_game w) ?f1 ?f2 (mcts_iters cfg)
            (c_puct cfg) (num_evaluate_games cfg) = Inr rate"
      and fin: "st' = (if win_rate cfg < rate then ?st2\<lparr>self_play_player := trained\<rparr> else ?st2)"
      by (auto simp: alphago_round_def bind_e_def Let_def checkpoint_model_def restore_def
          split: sum.splits if_splits)
    from m obtain wins1 wins2 draws against_random where
      e: "evaluate_estimators_in_both_positions (players w) (the_game w) ?f1 ?f2
            (mcts_iters cfg) (c_puct cfg) (num_evaluate_games cfg) (1 / 10) =
          Inr (wins1, wins2, draws)"
      and nz: "wins1 + wins2 + draws \<noteq> 0"
      and ar: "evaluate_mcts_against_random_player (players w) (the_game w) ?f2
            (mcts_iters cfg) (c_puct cfg) (num_evaluate_games cfg) (1 / 10) = Inr against_random"
      and rate: "rate = true_divide w wins2 (wins1 + wins2 + draws)"
      by (auto simp: evaluate_model_def bind_e_def Let_def split: sum.splits if_splits)
    from fin have tp: "training_player st' = trained" by (simp split: if_splits)
    show thesis
    proof (rule evaluated [of wins1 wins2 draws against_random])
      show "evaluate_every cfg \<noteq> 0" by (rule ee)
      show "step mod evaluate_every cfg = 0" by (rule True)
      show "evaluate_estimators_in_both_positions (players w) (the_game w) ?f1
              (create_estimate_fn w (training_player st')) (mcts_iters cfg) (c_puct cfg)
              (num_evaluate_games cfg) (1 / 10) = Inr (wins1, wins2, draws)"
        using e tp by simp
      show "wins1 + wins2 + draws \<noteq> 0" by (rule nz)
      show "evaluate_mcts_against_random_player (players w) (the_game w)
              (create_estimate_fn w (training_player st')) (mcts_iters cfg) (c_puct cfg)
              (num_evaluate_games cfg) (1 / 10) = Inr against_random"
        using ar tp by simp
      show "checkpoints st' = (checkpoints st)(?name \<mapsto> training_player st')"
        using fin by (simp split: if_splits)
      show "win_rate cfg < true_divide w wins2 (wins1 + wins2 + draws) \<longrightarrow>
              self_play_player st' = training_player st'"
        using fin rate by simp
      show "true_divide w wins2 (wins1 + wins2 + draws) \<le> win_rate cfg \<longrightarrow>
              self_play_player st' = self_play_player st"
        using fin rate by simp
    qed
  qed
qed

text \<open>
  Claim C3, as amended. A round that returns and whose index is a multiple of
  \<open>evaluate_every\<close> has written the candidate, as trained in this round, under the
  checkpoint name of the round's index, whether or not the candidate was promoted; a
  round whose index is not such a multiple leaves the checkpoints as they were.
\<close>

theorem checkpoint_on_evaluation_rounds:
  assumes "alphago_round w cfg step st = Inr st'"
  shows "(step mod evaluate_every cfg = 0 \<longrightarrow>
            checkpoints st' =
              (checkpoints st)(compute_checkpoint_name step (checkpoint_path cfg) \<mapsto>
                 training_player st')) \<and>
         (step mod evaluate_every cfg \<noteq> 0 \<longrightarrow> checkpoints st' = checkpoints st)"
  using assms by (cases rule: alphago_round_cases) simp_all

text \<open>
  The promotion as the loop writes it, for every player class, \<open>evaluate\<close> and division:
  in a round that returns and evaluates, the rate compared with \<open>win_rate\<close> is the
  candidate's wins over all games of the match in both seatings, and the reference
  becomes the checkpointed candidate if the rate is strictly above \<open>win_rate\<close> and
  stays as it was if not.
\<close>

lemma promotion_follows_measured_rate:
  assumes "alphago_round w cfg step st = Inr st'"
    and "step mod evaluate_every cfg = 0"
  shows "\<exists>wins1 wins2 draws.
           evaluate_estimators_in_both_positions (players w) (the_game w)
             (create_estimate_fn w (self_play_player st))
             (create_estimate_fn w (training_player st')) (mcts_iters cfg) (c_puct cfg)
             (num_evaluate_games cfg) (1 / 10) = Inr (wins1, wins2, draws) \<and>
           wins1 + wins2 + draws \<noteq> 0 \<and>
           checkpoints st' (compute_checkpoint_name step (checkpoint_path cfg)) =
             Some (training_player st') \<and>
           (win_rate cfg < true_divide w wins2 (wins1 + wins2 + draws) \<longrightarrow>
              self_play_player st' = training_player st') \<and>
           (true_divide w wins2 (wins1 + wins2 + draws) \<le> win_rate cfg \<longrightarrow>
              self_play_player st' = self_play_player st)"
  using assms(1)
proof (cases rule: alphago_round_cases)
  case skip
  with assms(2) show ?thesis by simp
next
  case (evaluated wins1 wins2 draws against_random)
  then show ?thesis by auto
qed

lemma nat_to_str_digit: "n < 10 \<Longrightarrow> nat_to_str n = [''0123456789'' ! n]"
  by (subst nat_to_str.simps) simp

lemma demo_names:
  "compute_checkpoint_name 1 ''ckpt/'' = ''ckpt/1.checkpoint''"
  "compute_checkpoint_name 2 ''ckpt/'' = ''ckpt/2.checkpoint''"
  "compute_checkpoint_name 3 ''ckpt/'' = ''ckpt/3.checkpoint''"
  "compute_checkpoint_name 5 ''ckpt/'' = ''ckpt/5.checkpoint''"
  by (simp_all add: compute_checkpoint_name_def int_to_str_def nat_to_str_digit)

lemma demo_generate:
  "generate_self_play_data {} (\<lambda>i. Inr demo_examples) 2 None = Inr [(0, demo_examples)]"
  using generate_without_file [of "{}" "\<lambda>i. demo_examples" 1] by simp

lemma demo_round_without_evaluation:
  "step mod 5 \<noteq> 0 \<Longrightarrow>
   alphago_round (demo_setting h) demo_config step
     \<lparr>self_play_player = a, training_player = b, checkpoints = saved, all_losses = ls\<rparr> =
   Inr \<lparr>self_play_player = a, training_player = Suc b, checkpoints = saved,
        all_losses = ls @ [[1 / 2]]\<rparr>"
  by (simp add: alphago_round_def optimise_def demo_setting_def demo_config_def demo_generate
      bind_e_def)


lemma demo_config_fields:
  "restore_step demo_config = Some 1" "checkpoint_path demo_config = ''ckpt/''"
  "alphago_steps demo_config = 2" "evaluate_every demo_config = 5"
  "win_rate demo_config = 55 / 100" "mcts_iters demo_config = 100"
  "c_puct demo_config = 1" "num_evaluate_games demo_config = 10"
  by (simp_all add: demo_config_def)

lemma demo_train_run:
  "train_alphago (demo_setting repo_harness) demo_config demo_saved =
     Inr \<lparr>self_play_player = 7, training_player = 9, checkpoints = demo_saved,
          all_losses = [[1 / 2], [1 / 2]]\<rparr>"
proof -
  have steps: "[2..(3::int)] = [2, 3]" by (simp add: upto_rec1)
  have r2: "alphago_round (demo_setting repo_harness) demo_config 2
      \<lparr>self_play_player = 7, training_player = 7, checkpoints = demo_saved, all_losses = []\<rparr> =
    Inr \<lparr>self_play_player = 7, training_player = 8, checkpoints = demo_saved,
         all_losses = [[1 / 2]]\<rparr>"
    using demo_round_without_evaluation [of 2 repo_harness 7 7 demo_saved "[]"] by simp
  have r3: "alphago_round (demo_setting repo_harness) demo_config 3
      \<lparr>self_play_player = 7, training_player = 8, checkpoints = demo_saved,
       all_losses = [[1 / 2]]\<rparr> =
    Inr \<lparr>self_play_player = 7, training_player = 9, checkpoints = demo_saved,
         all_losses = [[1 / 2], [1 / 2]]\<rparr>"
    using demo_round_without_evaluation [of 3 repo_harness 7 8 demo_saved "[[1 / 2]]"] by simp
  have saved: "restore demo_saved ''ckpt/1.checkpoint'' = Inr 7"
    by (simp add: restore_def demo_saved_def)
  show ?thesis
    by (simp add: train_alphago_def demo_config_fields demo_names saved bind_e_def steps r2 r3)
qed

text \<open>
  Claim C3 as stated fails on a round without evaluation: restored from round 1 and
  evaluating every 5 rounds, the run of rounds 2 and 3 returns with the checkpoints it
  started from, and no checkpoint named by round 2 or round 3.
\<close>

theorem round_without_checkpoint_counterexample:
  "train_alphago (demo_setting repo_harness) demo_config demo_saved =
     Inr \<lparr>self_play_player = 7, training_player = 9, checkpoints = demo_saved,
          all_losses = [[1 / 2], [1 / 2]]\<rparr> \<and>
   demo_saved (compute_checkpoint_name 2 ''ckpt/'') = None \<and>
   demo_saved (compute_checkpoint_name 3 ''ckpt/'') = None"
proof -
  have "demo_saved (compute_checkpoint_name 2 ''ckpt/'') = None"
    "demo_saved (compute_checkpoint_name 3 ''ckpt/'') = None"
    by (simp_all add: demo_names demo_saved_def)
  with demo_train_run show ?thesis by simp
qed

text \<open>
  With the player classes of \<open>player.py\<close> the evaluation itself raises, whatever the
  estimators, \<open>evaluate\<close> and the division are.
\<close>

lemma evaluate_model_repo_classes:
  "evaluate_model \<lparr>mcts_player = MCTSPlayer, random_player = RandomPlayer, evaluate = ev\<rparr>
     true_div g f1 f2 iters c n = Inl TypeError"
  by (simp add: evaluate_model_def evaluate_estimators_in_both_positions_def
      MCTSPlayer_rejects_tau bind_e_def)

lemma round_with_repo_classes:
  "alphago_round
     (w\<lparr>players := \<lparr>mcts_player = MCTSPlayer, random_player = RandomPlayer, evaluate = ev\<rparr>\<rparr>)
     cfg step st =
   bind_e (generate_self_play_data (readable w)
             (self_play_of w (create_estimate_fn w (self_play_player st)) step)
             (self_play_iters cfg) (self_play_file_path cfg)) (\<lambda>self_play_data.
     if evaluate_every cfg = 0 then Inl ZeroDivisionError
     else if step mod evaluate_every cfg = 0 then Inl TypeError
     else Inr (st\<lparr>training_player :=
                     fst (optimise w (training_player st)
                            (process_training_data self_play_data (replay_length cfg))
                            (batch_size cfg) (training_iters cfg)),
                  all_losses :=
                     all_losses st @
                     [snd (optimise w (training_player st)
                             (process_training_data self_play_data (replay_length cfg))
                             (batch_size cfg) (training_iters cfg))]\<rparr>))"
  by (simp add: alphago_round_def optimise_def evaluate_model_repo_classes bind_e_def Let_def
      case_prod_beta split: sum.splits)

lemma first_run_raises:
  "train_alphago (demo_setting repo_harness) first_run_config Map.empty = Inl TypeError"
proof -
  have steps: "[0..(99::int)] = 0 # [0 + 1..99]" by (rule upto_rec1) simp
  have fields: "restore_step first_run_config = None" "alphago_steps first_run_config = 100"
    "evaluate_every first_run_config = 1" "self_play_iters first_run_config = 2"
    "self_play_file_path first_run_config = None"
    by (simp_all add: first_run_config_def)
  have setting: "demo_setting repo_harness =
      (demo_setting repo_harness)\<lparr>players :=
        \<lparr>mcts_player = MCTSPlayer, random_player = RandomPlayer, evaluate = stronger_wins\<rparr>\<rparr>"
    by (simp add: demo_setting_def repo_harness_def)
  have gen: "generate_self_play_data (readable (demo_setting repo_harness))
      (self_play_of (demo_setting repo_harness) f 0) 2 None = Inr [(0, demo_examples)]" for f
    using demo_generate by (simp add: demo_setting_def)
  have round0: "alphago_round (demo_setting repo_harness) first_run_config 0 st = Inl TypeError"
    for st
    by (subst setting, subst round_with_repo_classes) (simp add: fields gen bind_e_def)
  have "train_alphago (demo_setting repo_harness) first_run_config Map.empty =
      run_rounds (demo_setting repo_harness) first_run_config (0 # [0 + 1..99])
        \<lparr>self_play_player = 0, training_player = 0, checkpoints = Map.empty, all_losses = []\<rparr>"
    unfolding train_alphago_def fields Let_def
    by (simp only: steps [symmetric]) (simp add: bind_e_def demo_setting_def)
  also have "\<dots> = Inl TypeError"
    by (simp only: run_rounds.simps round0 bind_e_def sum.case)
  finally show ?thesis .
qed

text \<open>
  Claim C4 does not hold of the code. With the player classes of \<open>player.py\<close>, a round
  whose index is a multiple of \<open>evaluate_every\<close> raises TypeError once self-play and
  training are done: no win rate is measured, no checkpoint is written and the
  reference is not replaced. A round returns only when it does not evaluate, with the
  reference and the checkpoints as they were. So the first run of \<open>train_alphago\<close> with
  the default \<open>evaluate_every = 1\<close> raises TypeError in round 0.
\<close>

theorem evaluation_round_raises:
  "alphago_round
     (w\<lparr>players := \<lparr>mcts_player = MCTSPlayer, random_player = RandomPlayer, evaluate = ev\<rparr>\<rparr>)
     cfg step st =
   bind_e (generate_self_play_data (readable w)
             (self_play_of w (create_estimate_fn w (self_play_player st)) step)
             (self_play_iters cfg) (self_play_file_path cfg)) (\<lambda>self_play_data.
     if evaluate_every cfg = 0 then Inl ZeroDivisionError
     else if step mod evaluate_every cfg = 0 then Inl TypeError
     else Inr (st\<lparr>training_player :=
                     fst (optimise w (training_player st)
                            (process_training_data self_play_data (replay_length cfg))
                            (batch_size cfg) (training_iters cfg)),
                  all_losses :=
                     all_losses st @
                     [snd (optimise w (training_player st)
                             (process_training_data self_play_data (replay_length cfg))
                             (batch_size cfg) (training_iters cfg))]\<rparr>)) \<and>
   train_alphago (demo_setting repo_harness) first_run_config Map.empty = Inl TypeError"
  using round_with_repo_classes first_run_raises by (rule conjI)

lemma demo_match:
  "evaluate_estimators_in_both_positions tau_harness demo_game 7 8 100 1 10 (1 / 10) =
     Inr (0, 20, 0)"
  by (simp add: evaluate_estimators_in_both_positions_def tau_harness_def bind_arguments_def
      stronger_wins_def strength_def dict_get_def bind_e_def)

lemma demo_against_random:
  "evaluate_mcts_against_random_player tau_harness demo_game 8 100 1 10 (1 / 10) =
     Inr (20, 0, 0)"
  by (simp add: evaluate_mcts_against_random_player_def tau_harness_def bind_arguments_def
      stronger_wins_def strength_def dict_get_def bind_e_def)

lemma demo_evaluate_model:
  "evaluate_model tau_harness (\<lambda>a b. real_of_int a / real_of_int b) demo_game 7 8 100 1 10 =
     Inr 1"
  by (simp add: evaluate_model_def demo_match demo_against_random bind_e_def)

lemma demo_round_5:
  "alphago_round (demo_setting tau_harness) demo_config 5 demo_start =
     Inr \<lparr>self_play_player = 8, training_player = 8,
          checkpoints = demo_saved(''ckpt/5.checkpoint'' \<mapsto> 8),
          all_losses = [[1 / 2]]\<rparr>"
  by (simp add: alphago_round_def optimise_def demo_setting_def demo_config_def demo_start_def
      demo_generate bind_e_def demo_evaluate_model checkpoint_model_def demo_names restore_def)

theorem checkpoint_on_evaluation_rounds_witness:
  "5 mod evaluate_every demo_config = 0 \<and>
   (demo_saved(''ckpt/5.checkpoint'' \<mapsto> 8)) (compute_checkpoint_name 5 ''ckpt/'') = Some 8"
proof -
  from checkpoint_on_evaluation_rounds [OF demo_round_5]
  show ?thesis by (simp add: demo_config_fields demo_names)
qed

text \<open>
  With player classes that accept the call, round 5 of the small run evaluates and
  returns: the candidate wins all 20 games, its rate 1 is above 0.55, and it becomes
  the reference.
\<close>

lemma demo_promotion:
  "\<exists>wins1 wins2 draws.
     evaluate_estimators_in_both_positions tau_harness demo_game 7 8 100 1 10 (1 / 10) =
       Inr (wins1, wins2, draws) \<and>
     win_rate demo_config < real_of_int wins2 / real_of_int (wins1 + wins2 + draws) \<and>
     self_play_player
       \<lparr>self_play_player = 8, training_player = 8,
        checkpoints = demo_saved(''ckpt/5.checkpoint'' \<mapsto> 8),
        all_losses = [[1 / 2 :: real]]\<rparr> = (8::nat)"
  by (simp add: demo_match demo_config_fields)

section \<open>Properties of self-play\<close>

lemma self_play_loop_extends:
  "self_play_loop fuel mcts sample node mc acc = Some (Inr out) \<Longrightarrow>
   \<exists>tr al apl gl.
     searched out = searched acc @ tr \<and> action_list out = action_list acc @ al \<and>
     action_probs_list out = action_probs_list acc @ apl \<and>
     game_state_list out = game_state_list acc @ gl \<and>
     length al = length tr \<and> length apl = length tr \<and> length gl = length tr \<and>
     replay mcts mc node (zip tr (zip al apl))"
proof (induction fuel arbitrary: node mc acc)
  case 0
  then show ?case by simp
next
  case (Suc fuel)
  show ?case
  proof (cases "is_terminal node")
    case True
    with Suc.prems have "out = acc" by simp
    then show ?thesis by simp
  next
    case False
    with Suc.prems obtain ps node' e where
      m: "mcts node (1 / (real mc + 1)) = Inr (ps, node')" and
      c: "dict_get (children node') (sample mc ps) = Inr e" and
      rec: "self_play_loop fuel mcts sample (child e) (mc + 1)
              \<lparr>game_state_list = game_state_list acc @ [game_state (child e)],
               action_list = action_list acc @ [sample mc ps],
               action_probs_list = action_probs_list acc @ [ps],
               searched = searched acc @ [(node, node')]\<rparr> = Some (Inr out)"
      by (auto simp: Let_def split: sum.splits prod.splits)
    from Suc.IH [OF rec] obtain tr al apl gl where
      o: "searched out = (searched acc @ [(node, node')]) @ tr"
         "action_list out = (action_list acc @ [sample mc ps]) @ al"
         "action_probs_list out = (action_probs_list acc @ [ps]) @ apl"
         "game_state_list out = (game_state_list acc @ [game_state (child e)]) @ gl"
      and l: "length al = length tr" "length apl = length tr" "length gl = length tr"
      and r: "replay mcts (mc + 1) (child e) (zip tr (zip al apl))"
      by auto
    let ?tr = "(node, node') # tr" and ?al = "sample mc ps # al" and ?apl = "ps # apl"
    let ?gl = "game_state (child e) # gl"
    have "replay mcts mc node (zip ?tr (zip ?al ?apl))"
      using m c r by simp
    moreover have "searched out = searched acc @ ?tr" "action_list out = action_list acc @ ?al"
      "action_probs_list out = action_probs_list acc @ ?apl"
      "game_state_list out = game_state_list acc @ ?gl"
      using o by simp_all
    moreover have "length ?al = length ?tr" "length ?apl = length ?tr" "length ?gl = length ?tr"
      using l by simp_all
    ultimately show ?thesis by blast
  qed
qed

lemma replay_first:
  "replay mcts mc node xs \<Longrightarrow> xs \<noteq> [] \<Longrightarrow> fst (fst (hd xs)) = node"
  by (cases xs) auto

lemma replay_calls:
  "replay mcts mc node xs \<Longrightarrow> i < length xs \<Longrightarrow>
   mcts (fst (fst (xs ! i))) (1 / (real (mc + i) + 1)) = Inr (snd (snd (xs ! i)), snd (fst (xs ! i)))"
proof (induction xs arbitrary: mc node i)
  case Nil
  then show ?case by simp
next
  case (Cons x xs)
  obtain r r' a ps where x: "x = ((r, r'), a, ps)" by (cases x) auto
  from Cons.prems x have here: "r = node" "mcts r (1 / (real mc + 1)) = Inr (ps, r')"
    by auto
  show ?case
  proof (cases i)
    case 0
    with x here show ?thesis by simp
  next
    case (Suc k)
    from Cons.prems x obtain e where "replay mcts (Suc mc) (child e) xs"
      by (auto split: sum.splits)
    from Cons.IH [OF this, of k] Cons.prems Suc show ?thesis by simp
  qed
qed

lemma replay_links:
  "replay mcts mc node xs \<Longrightarrow> Suc i < length xs \<Longrightarrow>
   \<exists>e. dict_get (children (snd (fst (xs ! i)))) (fst (snd (xs ! i))) = Inr e \<and>
       fst (fst (xs ! Suc i)) = child e"
proof (induction xs arbitrary: mc node i)
  case Nil
  then show ?case by simp
next
  case (Cons x xs)
  obtain r r' a ps where x: "x = ((r, r'), a, ps)" by (cases x) auto
  from Cons.prems x obtain e where e: "dict_get (children r') a = Inr e"
    and rest: "replay mcts (Suc mc) (child e) xs"
    by (auto split: sum.splits)
  show ?case
  proof (cases i)
    case 0
    from Cons.prems 0 have "xs \<noteq> []" by auto
    from replay_first [OF rest this] have "fst (fst (hd xs)) = child e" .
    moreover have "hd xs = xs ! 0" using \<open>xs \<noteq> []\<close> by (simp add: hd_conv_nth)
    ultimately show ?thesis using 0 x e by simp
  next
    case (Suc k)
    from Cons.IH [OF rest, of k] Cons.prems Suc show ?thesis by simp
  qed
qed


text \<open>
  Claim C1, as amended. In a game of \<open>self_play\<close> that ends, ply \<open>i\<close> calls the search
  with \<open>tau = 1 / (i + 1)\<close> on the root the play has reached. Only the first root is a
  freshly created node, for the initial state. The root of every later ply is the child
  node that the sampled action selects in the tree as the previous ply's search left
  it, so that subtree, with its children and edge statistics, is the tree of the next
  search.
\<close>

theorem self_play_carries_subtree:
  assumes "self_play_trace fuel (g :: 'a game) mcts sample = Some (Inr out)"
  shows "length (action_list out) = length (searched out) \<and>
         length (action_probs_list out) = length (searched out) \<and>
         length (game_state_list out) = Suc (length (searched out)) \<and>
         (searched out \<noteq> [] \<longrightarrow>
            fst (hd (searched out)) =
              new_node (initial_state g) (which_player g (initial_state g))) \<and>
         (\<forall>i < length (searched out).
            mcts (fst (searched out ! i)) (1 / (real i + 1)) =
              Inr (action_probs_list out ! i, snd (searched out ! i))) \<and>
         (\<forall>i. Suc i < length (searched out) \<longrightarrow>
            (\<exists>e. dict_get (children (snd (searched out ! i))) (action_list out ! i) = Inr e \<and>
                 fst (searched out ! Suc i) = child e))"
proof -
  let ?root = "new_node (initial_state g) (which_player g (initial_state g)) :: 'a MCTSNode"
  let ?acc = "\<lparr>game_state_list = [game_state ?root], action_list = [],
                action_probs_list = [], searched = []\<rparr>"
  from assms have "self_play_loop fuel mcts sample ?root 0 ?acc = Some (Inr out)"
    by (simp add: self_play_trace_def Let_def)
  from self_play_loop_extends [OF this]
  obtain tr al apl gl where
    o: "searched out = tr" "action_list out = al" "action_probs_list out = apl"
       "game_state_list out = game_state ?root # gl"
    and l: "length al = length tr" "length apl = length tr" "length gl = length tr"
    and r: "replay mcts 0 ?root (zip tr (zip al apl))"
    by auto
  let ?xs = "zip tr (zip al apl)"
  have lx: "length ?xs = length tr" using l by simp
  have nth: "\<And>i. i < length tr \<Longrightarrow> ?xs ! i = (tr ! i, al ! i, apl ! i)"
    using l by simp
  have first: "tr \<noteq> [] \<longrightarrow> fst (hd tr) = ?root"
  proof
    assume ne: "tr \<noteq> []"
    then have "?xs \<noteq> []" using lx by auto
    from replay_first [OF r this] have "fst (fst (?xs ! 0)) = ?root"
      using \<open>?xs \<noteq> []\<close> by (simp add: hd_conv_nth)
    with ne nth [of 0] show "fst (hd tr) = ?root" by (simp add: hd_conv_nth)
  qed
  have calls: "\<forall>i < length tr. mcts (fst (tr ! i)) (1 / (real i + 1)) = Inr (apl ! i, snd (tr ! i))"
  proof (intro allI impI)
    fix i assume i: "i < length tr"
    with lx have "i < length ?xs" by simp
    from replay_calls [OF r this] nth [OF i]
    show "mcts (fst (tr ! i)) (1 / (real i + 1)) = Inr (apl ! i, snd (tr ! i))" by simp
  qed
  have links: "\<forall>i. Suc i < length tr \<longrightarrow>
      (\<exists>e. dict_get (children (snd (tr ! i))) (al ! i) = Inr e \<and> fst (tr ! Suc i) = child e)"
  proof (intro allI impI)
    fix i assume i: "Suc i < length tr"
    with lx have "Suc i < length ?xs" by simp
    from replay_links [OF r this] nth [of i] nth [OF i] i
    show "\<exists>e. dict_get (children (snd (tr ! i))) (al ! i) = Inr e \<and> fst (tr ! Suc i) = child e"
      by simp
  qed
  from o l first calls links show ?thesis by simp
qed

lemma demo_trace:
  "self_play_trace 3 demo_game demo_mcts demo_sample = Some (Inr demo_play_log)"
proof -
  have three: "(3::nat) = Suc (Suc (Suc 0))" by simp
  show ?thesis
    using demo_states_distinct
    unfolding three
    by (simp add: self_play_trace_def new_node_def demo_game_def demo_mcts_def
        demo_sample_def demo_root_searched_def demo_mid_searched_def demo_mid_def
        demo_leaf_def demo_play_log_def dict_get_def)
qed

theorem self_play_carries_subtree_witness:
  "\<exists>e. dict_get (children (snd (searched demo_play_log ! 0))) (action_list demo_play_log ! 0) =
          Inr e \<and>
       fst (searched demo_play_log ! Suc 0) = child e"
proof -
  have "Suc 0 < length (searched demo_play_log)" by (simp add: demo_play_log_def)
  with self_play_carries_subtree [OF demo_trace] show ?thesis by blast
qed

text \<open>
  Claim C1 as stated fails at the second ply: the root handed to the second search is
  the node \<open>demo_mid\<close> of the first search's tree, which has a child with visit count 1
  and is not the fresh node for its state.
\<close>

theorem second_ply_root_not_fresh_counterexample:
  "self_play_trace 3 demo_game demo_mcts demo_sample = Some (Inr demo_play_log) \<and>
   fst (searched demo_play_log ! Suc 0) = demo_mid \<and>
   children demo_mid = [(1, Edge demo_leaf 1 1 1)] \<and>
   demo_mid \<noteq> new_node demo_s1 (which_player demo_game demo_s1)"
proof -
  have "fst (searched demo_play_log ! Suc 0) = demo_mid" by (simp add: demo_play_log_def)
  moreover have "children demo_mid = [(1, Edge demo_leaf 1 1 1)]" by (simp add: demo_mid_def)
  moreover have "demo_mid \<noteq> new_node demo_s1 (which_player demo_game demo_s1)"
    by (simp add: demo_mid_def new_node_def)
  ultimately show ?thesis using demo_trace by simp
qed

text \<open>The whole of \<open>self_play\<close> on the small game: the play and the builder.\<close>

lemma demo_self_play:
  "self_play 3 demo_game demo_mcts demo_sample =
     Some (Inr [([Fin 0, Fin 0], 0, [1, 0], 1), ([Fin 1, Fin float64_max], 1, [0, 1], - 1)])"
proof -
  have "self_play 3 demo_game demo_mcts demo_sample =
      Some (fst (process_self_play_data (game_state_list demo_play_log)
                   (action_list demo_play_log) (action_probs_list demo_play_log) demo_game
                   (action_indices demo_game)))"
    by (simp add: self_play_def demo_trace)
  also have "\<dots> = Some (Inr [([Fin 0, Fin 0], 0, [1, 0], 1),
                          ([Fin 1, Fin float64_max], 1, [0, 1], - 1)])"
    using demo_states_distinct
    by (simp add: demo_play_log_def process_self_play_data_def
        demo_game_def build_example_def probs_vector_def dict_get_def np_setitem_def
        np_position_def nan_to_num_def demo_s0_def demo_s1_def)
  finally show ?thesis .
qed

end
